theory Spec2Isabelle
  imports Main "HOL-Library.Sublist"
begin

section \<open>The build-and-run script \<^verbatim>\<open>run.py\<close>\<close>

text \<open>
  \<^verbatim>\<open>run.py\<close> checks that three source files exist, deletes old executables, looks for a
  C++ compiler on the search path, runs it on \<^verbatim>\<open>main.cpp\<close> and runs the executable it
  produced. Everything the script does to the outside world (printing, probing the file
  system and the search path, deleting files, starting child processes) is written out
  here as a change of an explicit \<open>world\<close>; everything the outside world answers (the
  platform name, the search path, what a child process does) is read from an explicit
  \<open>env\<close>.

  Three things are taken for granted: \<^verbatim>\<open>print\<close> always succeeds, \<^verbatim>\<open>os.chdir\<close> into the
  script's own directory succeeds, and an interrupt by the operator arrives while a child
  process runs (inside \<^verbatim>\<open>subprocess.run\<close>), not between two statements of the script.
\<close>

subsection \<open>Python values\<close>

text \<open>
  The exceptions that the library calls of the script raise. \<open>CalledProcessError\<close> and
  \<open>TimeoutExpired\<close> are subclasses of \<open>SubprocessError\<close>, hence of \<open>Exception\<close>;
  \<open>OSError\<close> (with \<open>FileNotFoundError\<close>, \<open>PermissionError\<close>, \<open>IsADirectoryError\<close>) is
  a subclass of \<open>Exception\<close>; so is \<open>UnicodeDecodeError\<close>, through \<open>ValueError\<close>;
  \<open>KeyboardInterrupt\<close> derives from \<open>BaseException\<close> only, so
  \<^verbatim>\<open>except Exception\<close> does not catch it.
\<close>

datatype py_exception =
    CalledProcessError int
  | TimeoutExpired
  | KeyboardInterrupt
  | OSError string
  | UnicodeDecodeError

fun is_Exception :: "py_exception \<Rightarrow> bool" where
  "is_Exception (CalledProcessError rc) = True"
| "is_Exception TimeoutExpired = True"
| "is_Exception KeyboardInterrupt = False"
| "is_Exception (OSError msg) = True"
| "is_Exception UnicodeDecodeError = True"

text \<open>
  A call returns a value, raises, or never returns (\<open>Blocks\<close>: the script waits for a child
  process that does not exit).
\<close>

datatype 'a result = Return 'a | Raise py_exception | Blocks

text \<open>Truth value of an \<open>Optional[str]\<close>: \<open>None\<close> and the empty string are false.\<close>

fun truthy :: "string option \<Rightarrow> bool" where
  "truthy None = False"
| "truthy (Some s) = (s \<noteq> [])"

text \<open>\<^verbatim>\<open>sep.join(xs)\<close>\<close>

fun join :: "string \<Rightarrow> string list \<Rightarrow> string" where
  "join sep [] = []"
| "join sep [x] = x"
| "join sep (x # y # ys) = x @ sep @ join sep (y # ys)"

text \<open>\<^verbatim>\<open>sub in s\<close> on strings: \<open>sub\<close> occurs in \<open>s\<close> as a contiguous run of characters.\<close>

fun str_in :: "string \<Rightarrow> string \<Rightarrow> bool" where
  "str_in sub [] = (sub = [])"
| "str_in sub (c # cs) = (prefix sub (c # cs) \<or> str_in sub cs)"

text \<open>
  A stream of a finished child process as the caller sees it: \<open>None\<close> when it was not
  captured, the bytes the child wrote when it was captured, a \<open>str\<close> (a list of code
  points) when it was captured with \<^verbatim>\<open>text=True\<close>.
\<close>

datatype py_stream = NotCaptured | Bytes string | Str "nat list"

text \<open>\<^verbatim>\<open>subprocess.CompletedProcess\<close>\<close>

record completed_process =
  returncode :: int
  stdout :: py_stream
  stderr :: py_stream

text \<open>
  What \<^verbatim>\<open>subprocess\<close> does to decoded output in text mode:
  \<^verbatim>\<open>data.replace("\r\n", "\n").replace("\r", "\n")\<close>.
\<close>

fun replace_crlf :: "nat list \<Rightarrow> nat list" where
  "replace_crlf [] = []"
| "replace_crlf [c] = [c]"
| "replace_crlf (a # b # cs) =
     (if a = 13 \<and> b = 10 then 10 # replace_crlf cs else a # replace_crlf (b # cs))"

definition replace_cr :: "nat list \<Rightarrow> nat list" where
  "replace_cr s = map (\<lambda>c. if c = 13 then 10 else c) s"

definition translate_newlines :: "nat list \<Rightarrow> nat list" where
  "translate_newlines s = replace_cr (replace_crlf s)"

subsection \<open>The outside world\<close>

text \<open>
  An entry of the working directory. \<open>Undeletable\<close> is a file that \<^verbatim>\<open>os.remove\<close> cannot
  delete (it is in use, or the directory is not writable).
\<close>

datatype node = File | Directory | Undeletable

type_synonym filesystem = "string \<rightharpoonup> node"

text \<open>
  What a child process does once \<^verbatim>\<open>subprocess.run\<close> is called on a command:
  it exits with a code and the bytes it wrote to its standard output and standard error;
  it has not exited when the time budget
  of the call, if any, is spent (\<open>Overruns\<close>; with no budget the caller waits forever); the
  operator interrupts the session while it runs; or it cannot be started at all.
\<close>

datatype child_outcome =
    Exited int string string
  | Overruns
  | Interrupted
  | SpawnFailed string

text \<open>
  The environment of one run of the script: \<^verbatim>\<open>platform.system()\<close>, the directory of the
  script, \<^verbatim>\<open>shutil.which\<close>, the decoding of bytes in the locale's encoding (\<open>None\<close>
  where the bytes are not valid in it), and for every command line what the child
  process started with it does and how it changes the working directory.
\<close>

record env =
  system :: string
  script_dir :: string
  which :: "string \<Rightarrow> string option"
  decode :: "string \<Rightarrow> nat list option"
  child_result :: "string list \<Rightarrow> child_outcome"
  child_effect :: "string list \<Rightarrow> filesystem \<Rightarrow> filesystem"

text \<open>
  One constructor for each \<^verbatim>\<open>print\<close> of the script, carrying the values interpolated into
  the line. The lines that start with a pictograph are named; the plain lines are \<open>Text\<close>.
\<close>

datatype message =
    Text string
  | Title  \<comment> \<open>\<^verbatim>\<open>RideEasy - Ride Sharing Platform\<close>\<close>
  | WorkingDirectory string  \<comment> \<open>\<^verbatim>\<open>Working directory: {script_dir}\<close>\<close>
  | MissingSources "string list"  \<comment> \<open>\<^verbatim>\<open>Missing required files: {missing_files}\<close>\<close>
  | Cleaned string  \<comment> \<open>\<^verbatim>\<open>Cleaned: {file}\<close>\<close>
  | FoundCompiler string  \<comment> \<open>\<^verbatim>\<open>Found compiler: {compiler}\<close>\<close>
  | NoCompilerFound  \<comment> \<open>\<^verbatim>\<open>No C++ compiler found!\<close>\<close>
  | Compiling string  \<comment> \<open>\<^verbatim>\<open>Compiling with {compiler}...\<close>\<close>
  | CompilationSuccessful  \<comment> \<open>\<^verbatim>\<open>Compilation successful!\<close>\<close>
  | CompilationFailed  \<comment> \<open>\<^verbatim>\<open>Compilation failed!\<close>\<close>
  | Stdout py_stream  \<comment> \<open>\<^verbatim>\<open>STDOUT: {result.stdout}\<close>\<close>
  | Stderr py_stream  \<comment> \<open>\<^verbatim>\<open>STDERR: {result.stderr}\<close>\<close>
  | CompilationTimedOut  \<comment> \<open>\<^verbatim>\<open>Compilation timed out!\<close>\<close>
  | CompilerInvocationError py_exception  \<comment> \<open>\<^verbatim>\<open>Compilation error: {e}\<close>\<close>
  | Running string  \<comment> \<open>\<^verbatim>\<open>Running {exe_name}...\<close>\<close>
  | ProgramExecuted  \<comment> \<open>\<^verbatim>\<open>Program executed successfully!\<close>\<close>
  | RuntimeFailure int  \<comment> \<open>\<^verbatim>\<open>Runtime error (exit code {e.returncode})\<close>\<close>
  | RunInterrupted  \<comment> \<open>\<^verbatim>\<open>Program interrupted by user\<close>\<close>
  | RunInvocationError py_exception  \<comment> \<open>\<^verbatim>\<open>Execution error: {e}\<close>\<close>

text \<open>
  The calls the script makes to the outside, in the order it makes them.
  \<open>SubprocessRun cmd timeout fs\<close> is a call of \<^verbatim>\<open>subprocess.run\<close> on the command \<open>cmd\<close>
  with that time budget, made when the working directory holds \<open>fs\<close>.
\<close>

datatype event =
    Print message
  | Chdir string
  | PathExists string
  | Remove string
  | Which string
  | SubprocessRun "string list" "nat option" filesystem

record world =
  files :: filesystem
  trace :: "event list"

definition emit :: "event \<Rightarrow> world \<Rightarrow> world" where
  "emit e w = w\<lparr>trace := trace w @ [e]\<rparr>"

definition print :: "message \<Rightarrow> world \<Rightarrow> world" where
  "print m w = emit (Print m) w"

text \<open>Sequencing: a call that raises or blocks ends the caller too, unless it is caught.\<close>

definition and_then ::
  "'a result \<times> world \<Rightarrow> ('a \<Rightarrow> world \<Rightarrow> 'b result \<times> world) \<Rightarrow> 'b result \<times> world" where
  "and_then m k =
     (case m of
        (Return x, w) \<Rightarrow> k x w
      | (Raise e, w) \<Rightarrow> (Raise e, w)
      | (Blocks, w) \<Rightarrow> (Blocks, w))"

subsection \<open>The library calls\<close>

text \<open>\<^verbatim>\<open>os.path.exists\<close>: true for a file and for a directory; it never raises.\<close>

definition os_path_exists :: "string \<Rightarrow> world \<Rightarrow> bool \<times> world" where
  "os_path_exists f w = (files w f \<noteq> None, emit (PathExists f) w)"

text \<open>\<^verbatim>\<open>os.remove\<close>: deletes a file; raises \<open>OSError\<close> on anything else.\<close>

definition os_remove :: "string \<Rightarrow> world \<Rightarrow> unit result \<times> world" where
  "os_remove f w =
     (let w1 = emit (Remove f) w in
      case files w f of
        Some File \<Rightarrow> (Return (), w1\<lparr>files := (files w)(f := None)\<rparr>)
      | Some Directory \<Rightarrow> (Raise (OSError ''IsADirectoryError''), w1)
      | Some Undeletable \<Rightarrow> (Raise (OSError ''PermissionError''), w1)
      | None \<Rightarrow> (Raise (OSError ''FileNotFoundError''), w1))"

text \<open>\<^verbatim>\<open>shutil.which\<close>: the path of the executable, or \<open>None\<close>.\<close>

definition shutil_which :: "env \<Rightarrow> string \<Rightarrow> world \<Rightarrow> string option \<times> world" where
  "shutil_which en c w = (which en c, emit (Which c) w)"

text \<open>
  The two streams of a child that has exited, as \<^verbatim>\<open>communicate\<close> hands them over:
  not captured; captured as bytes; or, in text mode, decoded (standard output first) and
  with the line ends translated. \<open>None\<close> when the decoding fails.
\<close>

definition read_streams ::
  "env \<Rightarrow> bool \<Rightarrow> bool \<Rightarrow> string \<Rightarrow> string \<Rightarrow> (py_stream \<times> py_stream) option" where
  "read_streams en capture_output text_mode out err =
     (if \<not> capture_output then Some (NotCaptured, NotCaptured)
      else if \<not> text_mode then Some (Bytes out, Bytes err)
      else case decode en out of
             None \<Rightarrow> None
           | Some t_out \<Rightarrow>
               (case decode en err of
                  None \<Rightarrow> None
                | Some t_err \<Rightarrow>
                    Some (Str (translate_newlines t_out), Str (translate_newlines t_err))))"

text \<open>
  \<^verbatim>\<open>subprocess.run(cmd, capture_output=..., text=..., timeout=..., check=...)\<close>. A child
  that cannot be started leaves the directory as it is and the call raises \<open>OSError\<close>.
  A child that overruns is killed and \<open>TimeoutExpired\<close> raised when there is a time
  budget; with none the call does not return. Once the child has exited its output is
  read: in text mode, output that is not valid in the locale's encoding raises
  \<open>UnicodeDecodeError\<close>. Only then, with \<^verbatim>\<open>check=True\<close>, a non-zero exit code is
  raised as \<open>CalledProcessError\<close>.
\<close>

definition subprocess_run ::
  "env \<Rightarrow> string list \<Rightarrow> bool \<Rightarrow> bool \<Rightarrow> nat option \<Rightarrow> bool \<Rightarrow> world
     \<Rightarrow> completed_process result \<times> world" where
  "subprocess_run en cmd capture_output text_mode timeout check w =
     (let w1 = emit (SubprocessRun cmd timeout (files w)) w;
          w2 = w1\<lparr>files := child_effect en cmd (files w)\<rparr>
      in case child_result en cmd of
           SpawnFailed msg \<Rightarrow> (Raise (OSError msg), w1)
         | Interrupted \<Rightarrow> (Raise KeyboardInterrupt, w2)
         | Overruns \<Rightarrow>
             (case timeout of
                Some t \<Rightarrow> (Raise TimeoutExpired, w2)
              | None \<Rightarrow> (Blocks, w2))
         | Exited rc out err \<Rightarrow>
             (case read_streams en capture_output text_mode out err of
                None \<Rightarrow> (Raise UnicodeDecodeError, w2)
              | Some (so, se) \<Rightarrow>
                  if check \<and> rc \<noteq> 0 then (Raise (CalledProcessError rc), w2)
                  else (Return \<lparr>returncode = rc, stdout = so, stderr = se\<rparr>, w2)))"

subsection \<open>The script\<close>

text \<open>\<^verbatim>\<open>print_header\<close>\<close>

definition print_header :: "world \<Rightarrow> world" where
  "print_header w =
     print (Text (replicate 50 CHR ''=''))
       (print Title
         (print (Text (replicate 50 CHR ''='')) w))"

text \<open>\<^verbatim>\<open>check_compiler\<close>: the loop over the candidates, then the function.\<close>

definition compilers :: "string list" where
  "compilers = [''g++'', ''clang++'']"

fun check_compiler_loop :: "env \<Rightarrow> string list \<Rightarrow> world \<Rightarrow> string option \<times> world" where
  "check_compiler_loop en [] w = (None, w)"
| "check_compiler_loop en (compiler # rest) w =
     (let (found, w1) = shutil_which en compiler w in
      if truthy found then (Some compiler, print (FoundCompiler compiler) w1)
      else check_compiler_loop en rest w1)"

definition check_compiler :: "env \<Rightarrow> world \<Rightarrow> string option result \<times> world" where
  "check_compiler en w =
     (case check_compiler_loop en compilers w of
        (Some compiler, w1) \<Rightarrow> (Return (Some compiler), w1)
      | (None, w1) \<Rightarrow>
          (Return None,
           print (Text ''  - Xcode Command Line Tools (macOS): xcode-select --install'')
             (print (Text ''  - GCC (Linux): sudo apt install g++'')
               (print (Text ''  - MinGW-w64 (Windows): https://www.mingw-w64.org/'')
                 (print (Text ''Please install one of the following:'')
                   (print NoCompilerFound w1))))))"

text \<open>\<^verbatim>\<open>clean_build\<close>: the loop over the artifact names, then the function.\<close>

definition files_to_remove :: "string list" where
  "files_to_remove = [''rideeasy.exe'', ''rideeasy'', ''a.out'']"

fun clean_build_loop :: "string list \<Rightarrow> world \<Rightarrow> unit result \<times> world" where
  "clean_build_loop [] w = (Return (), w)"
| "clean_build_loop (file # rest) w =
     (let (present, w1) = os_path_exists file w in
      if present then
        and_then (os_remove file w1)
          (\<lambda>_ w2. clean_build_loop rest (print (Cleaned file) w2))
      else clean_build_loop rest w1)"

definition clean_build :: "world \<Rightarrow> unit result \<times> world" where
  "clean_build w = clean_build_loop files_to_remove w"

text \<open>
  \<^verbatim>\<open>compile_project\<close>. The executable's name and the command line depend on the platform
  name and the compiler only; they are the first lines of the function.
\<close>

definition exe_name_for :: "string \<Rightarrow> string" where
  "exe_name_for sys = (if sys = ''Windows'' then ''rideeasy.exe'' else ''rideeasy'')"

definition build_cmd :: "string \<Rightarrow> string \<Rightarrow> string list" where
  "build_cmd sys compiler =
     (let cmd = [compiler, ''-std=c++17'', ''-Wall'', ''-Wextra'', ''-O2'', ''-I.'',
                 ''main.cpp'', ''-o'', exe_name_for sys]
      in if sys = ''Windows'' \<and> str_in ''g++'' compiler
         then cmd @ [''-static-libgcc'', ''-static-libstdc++'']
         else cmd)"

definition compile_project :: "env \<Rightarrow> string \<Rightarrow> world \<Rightarrow> string option result \<times> world" where
  "compile_project en compiler w =
     (let w1 = print (Compiling compiler) w;
          exe_name = exe_name_for (system en);
          cmd = build_cmd (system en) compiler;
          w2 = print (Text (''Command: '' @ join '' '' cmd)) w1
      in case subprocess_run en cmd True True (Some 30) False w2 of
           (Return result, w3) \<Rightarrow>
             if returncode result = 0
             then (Return (Some exe_name), print CompilationSuccessful w3)
             else (Return None,
                   print (Stderr (stderr result))
                     (print (Stdout (stdout result))
                       (print CompilationFailed w3)))
         | (Raise e, w3) \<Rightarrow>
             if e = TimeoutExpired then (Return None, print CompilationTimedOut w3)
             else if is_Exception e then (Return None, print (CompilerInvocationError e) w3)
             else (Raise e, w3)
         | (Blocks, w3) \<Rightarrow> (Blocks, w3))"

text \<open>\<^verbatim>\<open>run_executable\<close>\<close>

definition run_cmd :: "string \<Rightarrow> string \<Rightarrow> string list" where
  "run_cmd sys exe_name = (if sys = ''Windows'' then [exe_name] else [''./'' @ exe_name])"

definition run_executable :: "env \<Rightarrow> string \<Rightarrow> world \<Rightarrow> unit result \<times> world" where
  "run_executable en exe_name w =
     (let w1 = print (Running exe_name) w;
          w2 = print (Text (replicate 50 CHR ''-'')) w1
      in case subprocess_run en (run_cmd (system en) exe_name) False False None True w2 of
           (Return result, w3) \<Rightarrow>
             (Return (), print ProgramExecuted (print (Text (replicate 50 CHR ''-'')) w3))
         | (Raise e, w3) \<Rightarrow>
             (case e of
                CalledProcessError rc \<Rightarrow> (Return (), print (RuntimeFailure rc) w3)
              | KeyboardInterrupt \<Rightarrow> (Return (), print RunInterrupted w3)
              | _ \<Rightarrow> if is_Exception e then (Return (), print (RunInvocationError e) w3)
                     else (Raise e, w3))
         | (Blocks, w3) \<Rightarrow> (Blocks, w3))"

text \<open>
  \<^verbatim>\<open>main\<close>. The list comprehension that collects the missing files probes every required
  file in order. \<^verbatim>\<open>if not compiler\<close> and \<^verbatim>\<open>if not exe_name\<close> test the truth value of an
  optional string, so the value is read (\<open>the\<close>) only where it is not \<open>None\<close>.
\<close>

definition required_files :: "string list" where
  "required_files = [''main.cpp'', ''User.h'', ''RideManager.h'']"

fun missing_of :: "string list \<Rightarrow> world \<Rightarrow> string list \<times> world" where
  "missing_of [] w = ([], w)"
| "missing_of (f # fs) w =
     (let (present, w1) = os_path_exists f w;
          (ms, w2) = missing_of fs w1
      in (if \<not> present then f # ms else ms, w2))"

definition main :: "env \<Rightarrow> world \<Rightarrow> int result \<times> world" where
  "main en w =
     (let w1 = print_header w;
          w2 = emit (Chdir (script_dir en)) w1;
          w3 = print (WorkingDirectory (script_dir en)) w2;
          (missing_files, w4) = missing_of required_files w3
      in if missing_files \<noteq> [] then (Return 1, print (MissingSources missing_files) w4)
         else
           and_then (clean_build w4) (\<lambda>_ w5.
           and_then (check_compiler en w5) (\<lambda>compiler w6.
             if \<not> truthy compiler then (Return 1, w6)
             else
               and_then (compile_project en (the compiler) w6) (\<lambda>exe_name w7.
                 if \<not> truthy exe_name then (Return 1, w7)
                 else
                   and_then (run_executable en (the exe_name) w7) (\<lambda>_ w8.
                     (Return 0, w8))))))"

text \<open>
  The last two stages of \<^verbatim>\<open>main\<close> (compile, then run), named so that lemmas can speak
  of what \<^verbatim>\<open>main\<close> does once the compiler is resolved.
\<close>

definition build_and_run :: "env \<Rightarrow> string \<Rightarrow> world \<Rightarrow> int result \<times> world" where
  "build_and_run en c w6 =
     and_then (compile_project en c w6) (\<lambda>exe_name w7.
       if \<not> truthy exe_name then (Return 1, w7)
       else
         and_then (run_executable en (the exe_name) w7) (\<lambda>_ w8.
           (Return 0, w8)))"

subsection \<open>Observations on traces\<close>

text \<open>The events emitted between an earlier world and a later one.\<close>

definition events_of :: "world \<Rightarrow> world \<Rightarrow> event list" where
  "events_of w w' = drop (length (trace w)) (trace w')"

text \<open>The command lines handed to \<^verbatim>\<open>subprocess.run\<close>, in order.\<close>

fun commands_run :: "event list \<Rightarrow> string list list" where
  "commands_run [] = []"
| "commands_run (SubprocessRun cmd t fs # es) = cmd # commands_run es"
| "commands_run (e # es) = commands_run es"

text \<open>
  The arguments of a \<^verbatim>\<open>g++\<close> or \<^verbatim>\<open>clang++\<close> command line (the tokens after the program
  name) that the compiler reads as input files: those that are not options and not the
  operand of \<^verbatim>\<open>-o\<close>.
\<close>

fun input_files :: "string list \<Rightarrow> string list" where
  "input_files [] = []"
| "input_files [t] = (if prefix ''-'' t then [] else [t])"
| "input_files (t # u # ts) =
     (if t = ''-o'' then input_files ts
      else if prefix ''-'' t then input_files (u # ts)
      else t # input_files (u # ts))"

text \<open>
  The two captured streams of the compiler as text, when both can be decoded: what
  \<^verbatim>\<open>read_streams\<close> yields for the call in \<^verbatim>\<open>compile_project\<close>.
\<close>

definition decoded :: "env \<Rightarrow> string \<Rightarrow> string \<Rightarrow> (nat list \<times> nat list) option" where
  "decoded en out err =
     (case decode en out of
        None \<Rightarrow> None
      | Some t_out \<Rightarrow>
          (case decode en err of
             None \<Rightarrow> None
           | Some t_err \<Rightarrow> Some (translate_newlines t_out, translate_newlines t_err)))"

text \<open>The events that only \<^verbatim>\<open>clean_build\<close> emits on the artifact names.\<close>

fun is_clean_event :: "event \<Rightarrow> bool" where
  "is_clean_event (PathExists f) = True"
| "is_clean_event (Remove f) = True"
| "is_clean_event (Print (Cleaned f)) = True"
| "is_clean_event e = False"

text \<open>The events of each stage, as the stage lemmas below establish them.\<close>

definition preflight_events :: "env \<Rightarrow> event list" where
  "preflight_events en =
     [Print (Text (replicate 50 CHR ''='')), Print Title, Print (Text (replicate 50 CHR ''='')),
      Chdir (script_dir en), Print (WorkingDirectory (script_dir en)),
      PathExists ''main.cpp'', PathExists ''User.h'', PathExists ''RideManager.h'']"

definition resolver_events :: "env \<Rightarrow> event list" where
  "resolver_events en =
     map Which (takeWhile (\<lambda>c. \<not> truthy (which en c)) compilers) @
     (case find (\<lambda>c. truthy (which en c)) compilers of
        Some c \<Rightarrow> [Which c, Print (FoundCompiler c)]
      | None \<Rightarrow>
          [Print NoCompilerFound,
           Print (Text ''Please install one of the following:''),
           Print (Text ''  - MinGW-w64 (Windows): https://www.mingw-w64.org/''),
           Print (Text ''  - GCC (Linux): sudo apt install g++''),
           Print (Text ''  - Xcode Command Line Tools (macOS): xcode-select --install'')])"

definition build_events :: "env \<Rightarrow> string \<Rightarrow> filesystem \<Rightarrow> event list" where
  "build_events en c fs =
     [Print (Compiling c),
      Print (Text (''Command: '' @ join '' '' (build_cmd (system en) c))),
      SubprocessRun (build_cmd (system en) c) (Some 30) fs]"

definition run_events :: "env \<Rightarrow> string \<Rightarrow> filesystem \<Rightarrow> event list" where
  "run_events en x fs =
     [Print (Running x), Print (Text (replicate 50 CHR ''-'')),
      SubprocessRun (run_cmd (system en) x) None fs]"

subsection \<open>Sample inputs\<close>

text \<open>
  A checkout with the three required files, and environments built from a platform name,
  a search path, the outcome of the compiler's run and the outcome of the executable's
  run. A compiler that exits with code 0 writes the executable. The locale's encoding
  is ASCII: a byte above 127 cannot be decoded.
\<close>

definition ascii_decode :: "string \<Rightarrow> nat list option" where
  "ascii_decode bs =
     (if list_all (\<lambda>b. of_char b < (128::nat)) bs then Some (map of_char bs) else None)"

definition source_tree :: filesystem where
  "source_tree = [''main.cpp'' \<mapsto> File, ''User.h'' \<mapsto> File, ''RideManager.h'' \<mapsto> File]"

definition path_with :: "string list \<Rightarrow> string \<Rightarrow> string option" where
  "path_with cs c = (if c \<in> set cs then Some (''/usr/bin/'' @ c) else None)"

definition sample_env ::
  "string \<Rightarrow> string list \<Rightarrow> child_outcome \<Rightarrow> child_outcome \<Rightarrow> env" where
  "sample_env sys on_path build_outcome run_outcome =
     \<lparr>system = sys,
      script_dir = ''/home/dev/ride'',
      which = path_with on_path,
      decode = ascii_decode,
      child_result = (\<lambda>cmd. if length cmd = 1 then run_outcome else build_outcome),
      child_effect = (\<lambda>cmd fs.
         if length cmd \<noteq> 1 \<and> build_outcome = Exited 0 [] []
         then fs(exe_name_for sys \<mapsto> File) else fs)\<rparr>"

section \<open>Properties of the stages\<close>

lemma str_in_sublist: "str_in sub s = sublist sub s"
  by (induction s) (auto simp: sublist_Cons_right)

lemma events_of_append [simp]: "events_of w (w'\<lparr>trace := trace w @ es\<rparr>) = es"
  by (simp add: events_of_def)

lemma events_of_append2 [simp]:
  "events_of w (w'\<lparr>trace := trace w @ es, files := fs\<rparr>) = es"
  by (simp add: events_of_def)

lemma missing_of_eq:
  "missing_of fs w =
     (filter (\<lambda>f. files w f = None) fs, w\<lparr>trace := trace w @ map PathExists fs\<rparr>)"
  by (induction fs arbitrary: w) (simp_all add: os_path_exists_def emit_def)

lemma check_compiler_loop_eq:
  "check_compiler_loop en cs w =
     (find (\<lambda>c. truthy (which en c)) cs,
      w\<lparr>trace := trace w @ map Which (takeWhile (\<lambda>c. \<not> truthy (which en c)) cs) @
         (case find (\<lambda>c. truthy (which en c)) cs of
            None \<Rightarrow> [] | Some c \<Rightarrow> [Which c, Print (FoundCompiler c)])\<rparr>)"
  by (induction cs arbitrary: w) (simp_all add: shutil_which_def emit_def print_def)

lemma check_compiler_eq:
  "check_compiler en w =
     (Return (find (\<lambda>c. truthy (which en c)) compilers),
      w\<lparr>trace := trace w @ resolver_events en\<rparr>)"
  by (cases "find (\<lambda>c. truthy (which en c)) compilers")
     (simp_all add: check_compiler_def check_compiler_loop_eq resolver_events_def
        print_def emit_def)

lemma read_streams_text:
  "read_streams en True True out err =
     (case decoded en out err of
        None \<Rightarrow> None
      | Some (t_out, t_err) \<Rightarrow> Some (Str t_out, Str t_err))"
  by (simp add: read_streams_def decoded_def split: option.splits)




lemma compile_project_eq:
  "compile_project en c w =
     (case child_result en (build_cmd (system en) c) of
        Exited rc out err \<Rightarrow>
          (case decoded en out err of
             None \<Rightarrow>
               (Return None,
                w\<lparr>trace := trace w @ build_events en c (files w) @
                     [Print (CompilerInvocationError UnicodeDecodeError)],
                  files := child_effect en (build_cmd (system en) c) (files w)\<rparr>)
           | Some (t_out, t_err) \<Rightarrow>
               if rc = 0 then
                 (Return (Some (exe_name_for (system en))),
                  w\<lparr>trace := trace w @ build_events en c (files w) @
                       [Print CompilationSuccessful],
                    files := child_effect en (build_cmd (system en) c) (files w)\<rparr>)
               else
                 (Return None,
                  w\<lparr>trace := trace w @ build_events en c (files w) @
                       [Print CompilationFailed, Print (Stdout (Str t_out)),
                        Print (Stderr (Str t_err))],
                    files := child_effect en (build_cmd (system en) c) (files w)\<rparr>))
      | Overruns \<Rightarrow>
          (Return None,
           w\<lparr>trace := trace w @ build_events en c (files w) @ [Print CompilationTimedOut],
             files := child_effect en (build_cmd (system en) c) (files w)\<rparr>)
      | Interrupted \<Rightarrow>
          (Raise KeyboardInterrupt,
           w\<lparr>trace := trace w @ build_events en c (files w),
             files := child_effect en (build_cmd (system en) c) (files w)\<rparr>)
      | SpawnFailed msg \<Rightarrow>
          (Return None,
           w\<lparr>trace := trace w @ build_events en c (files w) @
                [Print (CompilerInvocationError (OSError msg))]\<rparr>))"
  by (simp add: compile_project_def subprocess_run_def read_streams_text emit_def print_def
      Let_def build_events_def split: child_outcome.splits option.splits)

lemma commands_run_build_events:
  "commands_run (build_events en c fs @ map Print ms) = [build_cmd (system en) c]"
  by (induction ms) (simp_all add: build_events_def)

lemma compile_project_commands:
  "commands_run (events_of w (snd (compile_project en c w))) = [build_cmd (system en) c]"
  using commands_run_build_events[of en c "files w" "[]"]
    commands_run_build_events[of en c "files w" "[m]" for m]
    commands_run_build_events[of en c "files w" "[m1, m2, m3]" for m1 m2 m3]
  by (simp add: compile_project_eq split: child_outcome.splits option.splits)

lemma main_missing:
  assumes "filter (\<lambda>f. files w f = None) required_files \<noteq> []"
  shows "main en w =
     (Return 1, w\<lparr>trace := trace w @ preflight_events en @
        [Print (MissingSources (filter (\<lambda>f. files w f = None) required_files))]\<rparr>)"
proof -
  have m: "map PathExists required_files =
      [PathExists ''main.cpp'', PathExists ''User.h'', PathExists ''RideManager.h'']"
    by (simp add: required_files_def)
  show ?thesis
    using assms
    by (simp add: main_def missing_of_eq m print_header_def print_def emit_def
        preflight_events_def Let_def)
qed

lemma main_present:
  assumes "filter (\<lambda>f. files w f = None) required_files = []"
  shows "main en w =
     and_then (clean_build (w\<lparr>trace := trace w @ preflight_events en\<rparr>)) (\<lambda>_ w5.
       and_then (check_compiler en w5) (\<lambda>compiler w6.
         if \<not> truthy compiler then (Return 1, w6)
         else
           and_then (compile_project en (the compiler) w6) (\<lambda>exe_name w7.
             if \<not> truthy exe_name then (Return 1, w7)
             else
               and_then (run_executable en (the exe_name) w7) (\<lambda>_ w8.
                 (Return 0, w8)))))"
proof -
  have m: "map PathExists required_files =
      [PathExists ''main.cpp'', PathExists ''User.h'', PathExists ''RideManager.h'']"
    by (simp add: required_files_def)
  show ?thesis
    using assms
    by (simp add: main_def missing_of_eq m print_header_def print_def emit_def
        preflight_events_def Let_def)
qed

lemma clean_build_loop_absent:
  "\<forall>f\<in>set fs. files w f = None \<Longrightarrow>
     clean_build_loop fs w = (Return (), w\<lparr>trace := trace w @ map PathExists fs\<rparr>)"
  by (induction fs arbitrary: w) (simp_all add: os_path_exists_def emit_def)

lemma clean_build_loop_trace:
  "\<exists>es. trace (snd (clean_build_loop fs w)) = trace w @ es \<and> list_all is_clean_event es"
proof (induction fs arbitrary: w)
  case Nil
  then show ?case by simp
next
  case (Cons f fs)
  show ?case
  proof (cases "files w f")
    case None
    from Cons[of "emit (PathExists f) w"] obtain es where
      "trace (snd (clean_build_loop fs (emit (PathExists f) w))) = trace (emit (PathExists f) w) @ es"
      "list_all is_clean_event es" by blast
    with None show ?thesis by (simp add: os_path_exists_def emit_def)
  next
    case (Some n)
    show ?thesis
    proof (cases n)
      case File
      let ?w2 = "print (Cleaned f) ((emit (Remove f) (emit (PathExists f) w))\<lparr>files := (files w)(f := None)\<rparr>)"
      from Cons[of ?w2] obtain es where
        "trace (snd (clean_build_loop fs ?w2)) = trace ?w2 @ es"
        "list_all is_clean_event es" by blast
      with Some File show ?thesis
        by (simp add: os_path_exists_def os_remove_def and_then_def emit_def print_def)
    next
      case Directory
      with Some show ?thesis
        by (simp add: os_path_exists_def os_remove_def and_then_def emit_def print_def)
    next
      case Undeletable
      with Some show ?thesis
        by (simp add: os_path_exists_def os_remove_def and_then_def emit_def print_def)
    qed
  qed
qed

lemma clean_build_loop_Return:
  "fst (clean_build_loop fs w) = Return () \<Longrightarrow>
     files (snd (clean_build_loop fs w)) = (\<lambda>f. if f \<in> set fs then None else files w f)"
proof (induction fs arbitrary: w)
  case Nil
  then show ?case by simp
next
  case (Cons f fs)
  show ?case
  proof (cases "files w f")
    case None
    with Cons.prems have "fst (clean_build_loop fs (emit (PathExists f) w)) = Return ()"
      by (simp add: os_path_exists_def)
    from Cons.IH[OF this] None show ?thesis
      by (auto simp add: os_path_exists_def emit_def)
  next
    case (Some n)
    show ?thesis
    proof (cases n)
      case File
      let ?w2 = "print (Cleaned f) ((emit (Remove f) (emit (PathExists f) w))\<lparr>files := (files w)(f := None)\<rparr>)"
      from Cons.prems Some File have "fst (clean_build_loop fs ?w2) = Return ()"
        by (simp add: os_path_exists_def os_remove_def and_then_def emit_def print_def)
      from Cons.IH[OF this] Some File show ?thesis
        by (auto simp add: os_path_exists_def os_remove_def and_then_def emit_def print_def)
    next
      case Directory
      with Some Cons.prems show ?thesis
        by (simp add: os_path_exists_def os_remove_def and_then_def emit_def print_def)
    next
      case Undeletable
      with Some Cons.prems show ?thesis
        by (simp add: os_path_exists_def os_remove_def and_then_def emit_def print_def)
    qed
  qed
qed

lemma clean_build_loop_ok:
  "\<forall>f\<in>set fs. files w f = None \<or> files w f = Some File \<Longrightarrow>
     fst (clean_build_loop fs w) = Return ()"
proof (induction fs arbitrary: w)
  case Nil
  then show ?case by simp
next
  case (Cons f fs)
  then show ?case
    by (auto simp add: os_path_exists_def os_remove_def and_then_def emit_def print_def)
qed

lemma run_executable_eq:
  "run_executable en x w =
     (case child_result en (run_cmd (system en) x) of
        Exited rc out err \<Rightarrow>
          if rc = 0 then
            (Return (),
             w\<lparr>trace := trace w @ run_events en x (files w) @
                  [Print (Text (replicate 50 CHR ''-'')), Print ProgramExecuted],
               files := child_effect en (run_cmd (system en) x) (files w)\<rparr>)
          else
            (Return (),
             w\<lparr>trace := trace w @ run_events en x (files w) @ [Print (RuntimeFailure rc)],
               files := child_effect en (run_cmd (system en) x) (files w)\<rparr>)
      | Overruns \<Rightarrow>
          (Blocks,
           w\<lparr>trace := trace w @ run_events en x (files w),
             files := child_effect en (run_cmd (system en) x) (files w)\<rparr>)
      | Interrupted \<Rightarrow>
          (Return (),
           w\<lparr>trace := trace w @ run_events en x (files w) @ [Print RunInterrupted],
             files := child_effect en (run_cmd (system en) x) (files w)\<rparr>)
      | SpawnFailed msg \<Rightarrow>
          (Return (),
           w\<lparr>trace := trace w @ run_events en x (files w) @
                [Print (RunInvocationError (OSError msg))]\<rparr>))"
  by (simp add: run_executable_def subprocess_run_def read_streams_def emit_def print_def
      Let_def run_events_def split: child_outcome.splits)

lemma find_compilers_nonempty:
  "find P compilers = Some c \<Longrightarrow> c \<noteq> []"
  by (auto simp add: compilers_def split: if_splits)

lemma exe_name_for_nonempty: "exe_name_for sys \<noteq> []"
  by (simp add: exe_name_for_def)

lemma main_after_clean:
  assumes "filter (\<lambda>f. files w f = None) required_files = []"
    and "clean_build (w\<lparr>trace := trace w @ preflight_events en\<rparr>) = (r, w5)"
  shows "main en w =
     (case r of
        Raise e \<Rightarrow> (Raise e, w5)
      | Blocks \<Rightarrow> (Blocks, w5)
      | Return u \<Rightarrow>
          (case find (\<lambda>c. truthy (which en c)) compilers of
             None \<Rightarrow> (Return 1, w5\<lparr>trace := trace w5 @ resolver_events en\<rparr>)
           | Some c \<Rightarrow> build_and_run en c (w5\<lparr>trace := trace w5 @ resolver_events en\<rparr>)))"
proof (cases r)
  case (Return u)
  show ?thesis
  proof (cases "find (\<lambda>c. truthy (which en c)) compilers")
    case None
    with Return assms show ?thesis
      by (simp add: main_present and_then_def check_compiler_eq)
  next
    case (Some c)
    with find_compilers_nonempty[OF Some] Return assms show ?thesis
      by (simp add: main_present and_then_def check_compiler_eq build_and_run_def)
  qed
next
  case (Raise e)
  with assms show ?thesis by (simp add: main_present and_then_def)
next
  case Blocks
  with assms show ?thesis by (simp add: main_present and_then_def)
qed

text \<open>The run stage as \<^verbatim>\<open>main\<close> goes through it after a successful build.\<close>

lemma run_after_build:
  "and_then (run_executable en (exe_name_for (system en)) w) (\<lambda>_ w8. (Return 0, w8)) =
     (case child_result en (run_cmd (system en) (exe_name_for (system en))) of
        Exited rc out err \<Rightarrow>
          (Return 0,
           w\<lparr>trace := trace w @ run_events en (exe_name_for (system en)) (files w) @
                (if rc = 0
                 then [Print (Text (replicate 50 CHR ''-'')), Print ProgramExecuted]
                 else [Print (RuntimeFailure rc)]),
             files := child_effect en (run_cmd (system en) (exe_name_for (system en))) (files w)\<rparr>)
      | Overruns \<Rightarrow>
          (Blocks,
           w\<lparr>trace := trace w @ run_events en (exe_name_for (system en)) (files w),
             files := child_effect en (run_cmd (system en) (exe_name_for (system en))) (files w)\<rparr>)
      | Interrupted \<Rightarrow>
          (Return 0,
           w\<lparr>trace := trace w @ run_events en (exe_name_for (system en)) (files w) @
                [Print RunInterrupted],
             files := child_effect en (run_cmd (system en) (exe_name_for (system en))) (files w)\<rparr>)
      | SpawnFailed msg \<Rightarrow>
          (Return 0,
           w\<lparr>trace := trace w @ run_events en (exe_name_for (system en)) (files w) @
                [Print (RunInvocationError (OSError msg))]\<rparr>))"
  by (simp add: and_then_def run_executable_eq split: child_outcome.splits)

lemma build_and_run_eq:
  "build_and_run en c w =
     (case child_result en (build_cmd (system en) c) of
        Exited rc out err \<Rightarrow>
          (case decoded en out err of
             None \<Rightarrow>
               (Return 1,
                w\<lparr>trace := trace w @ build_events en c (files w) @
                     [Print (CompilerInvocationError UnicodeDecodeError)],
                  files := child_effect en (build_cmd (system en) c) (files w)\<rparr>)
           | Some (t_out, t_err) \<Rightarrow>
               if rc = 0 then
                 and_then
                   (run_executable en (exe_name_for (system en))
                      (w\<lparr>trace := trace w @ build_events en c (files w) @
                           [Print CompilationSuccessful],
                        files := child_effect en (build_cmd (system en) c) (files w)\<rparr>))
                   (\<lambda>_ w8. (Return 0, w8))
               else
                 (Return 1,
                  w\<lparr>trace := trace w @ build_events en c (files w) @
                       [Print CompilationFailed, Print (Stdout (Str t_out)),
                        Print (Stderr (Str t_err))],
                    files := child_effect en (build_cmd (system en) c) (files w)\<rparr>))
      | Overruns \<Rightarrow>
          (Return 1,
           w\<lparr>trace := trace w @ build_events en c (files w) @ [Print CompilationTimedOut],
             files := child_effect en (build_cmd (system en) c) (files w)\<rparr>)
      | Interrupted \<Rightarrow>
          (Raise KeyboardInterrupt,
           w\<lparr>trace := trace w @ build_events en c (files w),
             files := child_effect en (build_cmd (system en) c) (files w)\<rparr>)
      | SpawnFailed msg \<Rightarrow>
          (Return 1,
           w\<lparr>trace := trace w @ build_events en c (files w) @
                [Print (CompilerInvocationError (OSError msg))]\<rparr>))"
  by (simp add: build_and_run_def and_then_def compile_project_eq exe_name_for_nonempty
      split: child_outcome.splits option.splits)

lemma clean_build_stale:
  "clean_build \<lparr>files = source_tree(''rideeasy'' \<mapsto> File), trace = []\<rparr> =
     (Return (),
      \<lparr>files = (source_tree(''rideeasy'' \<mapsto> File))(''rideeasy'' := None),
       trace = [PathExists ''rideeasy.exe'', PathExists ''rideeasy'', Remove ''rideeasy'',
                Print (Cleaned ''rideeasy''), PathExists ''a.out'']\<rparr>)"
  by (simp add: clean_build_def files_to_remove_def os_path_exists_def os_remove_def
      and_then_def emit_def print_def source_tree_def)

lemma clean_build_loop_probes:
  "fst (clean_build_loop fs w) = Return () \<Longrightarrow>
     \<forall>f\<in>set fs. PathExists f \<in> set (events_of w (snd (clean_build_loop fs w)))"
proof (induction fs arbitrary: w)
  case Nil
  then show ?case by simp
next
  case (Cons f fs)
  obtain w1 where w1: "w1 = (if files w f = None then emit (PathExists f) w
      else print (Cleaned f) ((emit (Remove f) (emit (PathExists f) w))\<lparr>files := (files w)(f := None)\<rparr>))"
    by simp
  from Cons.prems have ok: "files w f = None \<or> files w f = Some File"
    by (cases "files w f"; cases "the (files w f)")
       (simp_all add: os_path_exists_def os_remove_def and_then_def emit_def)
  from ok have step: "clean_build_loop (f # fs) w = clean_build_loop fs w1"
    by (auto simp add: w1 os_path_exists_def os_remove_def and_then_def emit_def print_def)
  from ok obtain e0 where t1: "trace w1 = trace w @ PathExists f # e0"
    by (auto simp add: w1 emit_def print_def)
  from clean_build_loop_trace[of fs w1] obtain es where
    es: "trace (snd (clean_build_loop fs w1)) = trace w1 @ es" by blast
  from Cons.prems step have r: "fst (clean_build_loop fs w1) = Return ()" by simp
  from Cons.IH[OF r] es have ih: "\<forall>g\<in>set fs. PathExists g \<in> set es"
    by (simp add: events_of_def)
  have ev: "events_of w (snd (clean_build_loop (f # fs) w)) = PathExists f # e0 @ es"
    by (simp only: step) (simp add: es t1 events_of_def)
  show ?case
    unfolding ev using ih by simp
qed

lemma clean_events_no_subprocess:
  "list_all is_clean_event es \<Longrightarrow> SubprocessRun c t fs \<notin> set es"
  by (induction es) auto

lemma clean_events_no_which:
  "list_all is_clean_event es \<Longrightarrow> Which c \<notin> set es"
  by (induction es) auto

lemma clean_events_no_print:
  "list_all is_clean_event es \<Longrightarrow> Print m \<in> set es \<Longrightarrow> \<exists>f. m = Cleaned f"
proof (induction es)
  case Nil
  then show ?case by simp
next
  case (Cons e es)
  then show ?case by (cases e rule: is_clean_event.cases) auto
qed

text \<open>The four ways \<^verbatim>\<open>main\<close> can go up to the resolution of the compiler.\<close>

lemma main_cases [case_names Missing CleanStopped NoCompiler Resolved]:
  obtains
    (Missing) "filter (\<lambda>f. files w f = None) required_files \<noteq> []"
      "main en w = (Return 1, w\<lparr>trace := trace w @ preflight_events en @
          [Print (MissingSources (filter (\<lambda>f. files w f = None) required_files))]\<rparr>)"
  | (CleanStopped) r w5 ec where
      "filter (\<lambda>f. files w f = None) required_files = []"
      "\<forall>u. r \<noteq> Return u" "main en w = (r, w5)"
      "trace w5 = trace w @ preflight_events en @ ec" "list_all is_clean_event ec"
      "\<not> (\<forall>f\<in>set files_to_remove. files w f = None \<or> files w f = Some File)"
  | (NoCompiler) w5 ec where
      "filter (\<lambda>f. files w f = None) required_files = []"
      "find (\<lambda>c. truthy (which en c)) compilers = None"
      "main en w = (Return 1, w5\<lparr>trace := trace w5 @ resolver_events en\<rparr>)"
      "trace w5 = trace w @ preflight_events en @ ec" "list_all is_clean_event ec"
  | (Resolved) c w5 ec where
      "filter (\<lambda>f. files w f = None) required_files = []"
      "find (\<lambda>c. truthy (which en c)) compilers = Some c"
      "main en w = build_and_run en c (w5\<lparr>trace := trace w5 @ resolver_events en\<rparr>)"
      "trace w5 = trace w @ preflight_events en @ ec" "list_all is_clean_event ec"
      "\<forall>f\<in>set files_to_remove. PathExists f \<in> set ec"
      "\<forall>f\<in>set files_to_remove. files w5 f = None"
proof (cases "filter (\<lambda>f. files w f = None) required_files = []")
  case False
  with main_missing[OF False, of en] Missing show ?thesis by blast
next
  case True
  let ?w4 = "w\<lparr>trace := trace w @ preflight_events en\<rparr>"
  obtain r w5 where c: "clean_build ?w4 = (r, w5)"
    by (cases "clean_build ?w4")
  from clean_build_loop_trace[of files_to_remove ?w4] c obtain ec where
    ec: "trace w5 = trace w @ preflight_events en @ ec" "list_all is_clean_event ec"
    by (auto simp add: clean_build_def)
  note m = main_after_clean[OF True c]
  show ?thesis
  proof (cases r)
    case (Return u)
    from c Return have r: "fst (clean_build_loop files_to_remove ?w4) = Return ()"
      by (simp add: clean_build_def)
    from clean_build_loop_Return[OF r] c
    have fs: "\<forall>f\<in>set files_to_remove. files w5 f = None"
      by (simp add: clean_build_def)
    from clean_build_loop_probes[OF r] c ec
    have pr: "\<forall>f\<in>set files_to_remove. PathExists f \<in> set ec"
      by (simp add: clean_build_def events_of_def)
    show ?thesis
    proof (cases "find (\<lambda>c. truthy (which en c)) compilers")
      case None
      with m Return have "main en w = (Return 1, w5\<lparr>trace := trace w5 @ resolver_events en\<rparr>)"
        by simp
      with NoCompiler[OF True None _ ec] show ?thesis by blast
    next
      case (Some c)
      with m Return have "main en w = build_and_run en c (w5\<lparr>trace := trace w5 @ resolver_events en\<rparr>)"
        by simp
      with Resolved[OF True Some _ ec pr fs] show ?thesis by blast
    qed
  next
    case (Raise e)
    with m have "main en w = (Raise e, w5)" by simp
    moreover have "\<not> (\<forall>f\<in>set files_to_remove. files w f = None \<or> files w f = Some File)"
    proof
      assume "\<forall>f\<in>set files_to_remove. files w f = None \<or> files w f = Some File"
      then have "fst (clean_build_loop files_to_remove ?w4) = Return ()"
        by (intro clean_build_loop_ok) simp
      with c Raise show False by (simp add: clean_build_def)
    qed
    ultimately show ?thesis
      using CleanStopped[OF True _ _ ec, of "Raise e"] by blast
  next
    case Blocks
    with m have "main en w = (Blocks, w5)" by simp
    moreover have "\<not> (\<forall>f\<in>set files_to_remove. files w f = None \<or> files w f = Some File)"
    proof
      assume "\<forall>f\<in>set files_to_remove. files w f = None \<or> files w f = Some File"
      then have "fst (clean_build_loop files_to_remove ?w4) = Return ()"
        by (intro clean_build_loop_ok) simp
      with c Blocks show False by (simp add: clean_build_def)
    qed
    ultimately show ?thesis
      using CleanStopped[OF True _ _ ec, of Blocks] by blast
  qed
qed


lemma build_cmd_length: "9 \<le> length (build_cmd sys c)"
  by (simp add: build_cmd_def Let_def)

lemma run_cmd_length: "length (run_cmd sys x) = 1"
  by (simp add: run_cmd_def)

lemma build_cmd_neq_run_cmd: "build_cmd sys c \<noteq> run_cmd sys' x"
  using build_cmd_length[of sys c] run_cmd_length[of sys' x] by auto

lemma split_unique:
  "xs @ x # ys = pre @ y # post \<Longrightarrow> Q y \<Longrightarrow> \<forall>e\<in>set xs. \<not> Q e \<Longrightarrow> \<forall>e\<in>set ys. \<not> Q e
     \<Longrightarrow> pre = xs \<and> y = x \<and> post = ys"
proof (induction xs arbitrary: pre)
  case Nil
  then show ?case by (cases pre) auto
next
  case (Cons a xs)
  then show ?case by (cases pre) auto
qed

lemma preflight_events_no_subprocess: "SubprocessRun c t fs \<notin> set (preflight_events en)"
  by (simp add: preflight_events_def)

lemma resolver_events_no_subprocess: "SubprocessRun c t fs \<notin> set (resolver_events en)"
  by (auto simp add: resolver_events_def split: option.splits)

lemma build_and_run_events:
  "\<exists>tail. trace (snd (build_and_run en c w)) =
       trace w @ [Print (Compiling c),
                  Print (Text (''Command: '' @ join '' '' (build_cmd (system en) c)))] @
         SubprocessRun (build_cmd (system en) c) (Some 30) (files w) # tail
     \<and> (\<forall>c' t fs. SubprocessRun (build_cmd (system en) c') t fs \<notin> set tail)"
  by (cases "child_result en (build_cmd (system en) c)";
      cases "child_result en (run_cmd (system en) (exe_name_for (system en)))")
     (simp_all add: build_and_run_eq run_after_build build_events_def run_events_def
        build_cmd_neq_run_cmd split: option.splits)

lemmas run_defs =
  main_def print_header_def required_files_def clean_build_def
  files_to_remove_def check_compiler_def
  compilers_def compile_project_def run_executable_def subprocess_run_def
  os_path_exists_def os_remove_def shutil_which_def and_then_def emit_def print_def
  build_cmd_def exe_name_for_def run_cmd_def sample_env_def path_with_def source_tree_def
  read_streams_def ascii_decode_def translate_newlines_def replace_cr_def
  events_of_def Let_def

lemma main_stale_failed_build:
  "main (sample_env ''Linux'' [''g++''] (Exited 1 [] ''error'') (Exited 0 [] []))
      \<lparr>files = source_tree(''rideeasy'' \<mapsto> File), trace = []\<rparr>
   = (Return 1,
      \<lparr>files = source_tree(''rideeasy'' := None),
       trace =
        [Print (Text (replicate 50 CHR ''='')), Print Title, Print (Text (replicate 50 CHR ''='')),
         Chdir ''/home/dev/ride'', Print (WorkingDirectory ''/home/dev/ride''),
         PathExists ''main.cpp'', PathExists ''User.h'', PathExists ''RideManager.h'',
         PathExists ''rideeasy.exe'', PathExists ''rideeasy'', Remove ''rideeasy'',
         Print (Cleaned ''rideeasy''), PathExists ''a.out'',
         Which ''g++'', Print (FoundCompiler ''g++''),
         Print (Compiling ''g++''),
         Print (Text ''Command: g++ -std=c++17 -Wall -Wextra -O2 -I. main.cpp -o rideeasy''),
         SubprocessRun (build_cmd ''Linux'' ''g++'') (Some 30) (source_tree(''rideeasy'' := None)),
         Print CompilationFailed, Print (Stdout (Str [])), Print (Stderr (Str (map of_char ''error'')))]\<rparr>)"
  by (simp add: run_defs)

lemma commands_run_append: "commands_run (xs @ ys) = commands_run xs @ commands_run ys"
  by (induction xs rule: commands_run.induct) simp_all

lemma commands_run_clean: "list_all is_clean_event es \<Longrightarrow> commands_run es = []"
proof (induction es)
  case Nil
  then show ?case by simp
next
  case (Cons e es)
  then show ?case by (cases e rule: is_clean_event.cases) simp_all
qed

lemma commands_run_preflight: "commands_run (preflight_events en) = []"
  by (simp add: preflight_events_def)

lemma commands_run_map_Which: "commands_run (map Which cs) = []"
  by (induction cs) simp_all

lemma commands_run_resolver: "commands_run (resolver_events en) = []"
  by (simp add: resolver_events_def commands_run_append commands_run_map_Which
      split: option.splits)

lemma find_None_all: "(find P xs = None) = (\<forall>x\<in>set xs. \<not> P x)"
  by (auto simp add: find_None_iff)

lemma resolver_events_prints:
  "Print m \<in> set (resolver_events en) \<Longrightarrow>
     (\<exists>c. m = FoundCompiler c) \<or> m = NoCompilerFound \<or> (\<exists>s. m = Text s)"
  by (auto simp add: resolver_events_def split: option.splits)

lemma preflight_events_prints:
  "Print m \<in> set (preflight_events en) \<Longrightarrow>
     m = Title \<or> (\<exists>s. m = Text s) \<or> (\<exists>s. m = WorkingDirectory s)"
  by (auto simp add: preflight_events_def)

text \<open>Before the compiler is resolved nothing of the last two stages has happened.\<close>

lemma early_events:
  assumes "list_all is_clean_event ec"
    and "e \<in> set (preflight_events en @ ec @ resolver_events en)"
  shows "(\<forall>c t fs. e \<noteq> SubprocessRun c t fs) \<and> (\<forall>x. e \<noteq> Print (Running x))
     \<and> (\<forall>rc. e \<noteq> Print (RuntimeFailure rc)) \<and> e \<noteq> Print RunInterrupted
     \<and> (\<forall>x. e \<noteq> Print (RunInvocationError x))"
proof (cases e)
  case (Print m)
  with assms clean_events_no_print[OF assms(1), of m]
    preflight_events_prints[of m en] resolver_events_prints[of m en]
  show ?thesis by auto
next
  case (SubprocessRun c t fs)
  with assms clean_events_no_subprocess[OF assms(1), of c t fs]
    preflight_events_no_subprocess[of c t fs en] resolver_events_no_subprocess[of c t fs en]
  show ?thesis by auto
qed simp_all

lemma build_and_run_prefix:
  "trace (snd (build_and_run en c w)) = trace w @ events_of w (snd (build_and_run en c w))"
  by (simp add: build_and_run_eq run_after_build events_of_def
      split: child_outcome.splits option.splits)

lemma build_and_run_reports:
  assumes "Print m \<in> set (events_of w (snd (build_and_run en c w)))"
    and "m = RunInterrupted \<or> (\<exists>rc. m = RuntimeFailure rc) \<or> (\<exists>e. m = RunInvocationError e)"
  shows "fst (build_and_run en c w) = Return 0"
  using assms
  by (cases "child_result en (build_cmd (system en) c)";
      cases "child_result en (run_cmd (system en) (exe_name_for (system en)))")
     (auto simp add: build_and_run_eq run_after_build build_events_def run_events_def
        split: if_splits option.splits)

lemma main_interrupted_run:
  "Print RunInterrupted
     \<in> set (events_of \<lparr>files = source_tree, trace = []\<rparr>
          (snd (main (sample_env ''Linux'' [''g++''] (Exited 0 [] []) Interrupted)
             \<lparr>files = source_tree, trace = []\<rparr>)))"
  by (simp add: run_defs)

text \<open>
  \<^verbatim>\<open>g++\<close> occurs in \<^verbatim>\<open>clang++\<close>, so on Windows both candidates of \<^verbatim>\<open>check_compiler\<close>
  are given the static-linking flags.
\<close>

lemma build_cmd_windows_clang:
  "build_cmd ''Windows'' ''clang++'' =
     [''clang++'', ''-std=c++17'', ''-Wall'', ''-Wextra'', ''-O2'', ''-I.'', ''main.cpp'', ''-o'',
      ''rideeasy.exe'', ''-static-libgcc'', ''-static-libstdc++'']"
  by (simp add: build_cmd_def exe_name_for_def)

lemma build_cmd_inputs:
  "hd (build_cmd sys c) = c
   \<and> input_files (tl (build_cmd sys c)) = [''main.cpp'']
   \<and> filter (prefix ''-I'') (tl (build_cmd sys c)) = [''-I.'']
   \<and> (\<forall>t \<in> set (tl (build_cmd sys c)).
         \<not> sublist ''User.h'' t \<and> \<not> sublist ''RideManager.h'' t)"
  by (simp add: build_cmd_def exe_name_for_def Let_def str_in_sublist[symmetric])




section \<open>The claims\<close>

text \<open>
  C2. For every compiler name and platform name, the command line is the compiler name,
  \<^verbatim>\<open>-std=c++17 -Wall -Wextra -O2 -I. main.cpp -o\<close> and the output name, which is
  \<^verbatim>\<open>rideeasy.exe\<close> on Windows and \<^verbatim>\<open>rideeasy\<close> elsewhere, followed by
  \<^verbatim>\<open>-static-libgcc -static-libstdc++\<close> exactly when the platform is Windows and \<^verbatim>\<open>g++\<close>
  occurs in the compiler name; and this is the one command that \<^verbatim>\<open>compile_project\<close>
  hands to \<^verbatim>\<open>subprocess.run\<close>.
\<close>

theorem build_command_tokens:
  "build_cmd sys compiler =
     [compiler, ''-std=c++17'', ''-Wall'', ''-Wextra'', ''-O2'', ''-I.'', ''main.cpp'', ''-o'',
      (if sys = ''Windows'' then ''rideeasy.exe'' else ''rideeasy'')] @
     (if sys = ''Windows'' \<and> sublist ''g++'' compiler
      then [''-static-libgcc'', ''-static-libstdc++''] else [])
   \<and> commands_run (events_of w (snd (compile_project en compiler w)))
       = [build_cmd (system en) compiler]"
  by (simp add: build_cmd_def exe_name_for_def str_in_sublist compile_project_commands)

theorem build_command_tokens_witness:
  "build_cmd ''Windows'' ''g++'' =
     [''g++'', ''-std=c++17'', ''-Wall'', ''-Wextra'', ''-O2'', ''-I.'', ''main.cpp'', ''-o'',
      ''rideeasy.exe'', ''-static-libgcc'', ''-static-libstdc++'']
   \<and> build_cmd ''Linux'' ''g++'' =
     [''g++'', ''-std=c++17'', ''-Wall'', ''-Wextra'', ''-O2'', ''-I.'', ''main.cpp'', ''-o'',
      ''rideeasy'']
   \<and> build_cmd ''Windows'' ''cl'' =
     [''cl'', ''-std=c++17'', ''-Wall'', ''-Wextra'', ''-O2'', ''-I.'', ''main.cpp'', ''-o'',
      ''rideeasy.exe'']"
  using build_command_tokens[of "''Windows''" "''g++''"]
    build_command_tokens[of "''Linux''" "''g++''"]
    build_command_tokens[of "''Windows''" "''cl''"]
  by (simp add: sublist_code)

text \<open>
  C9. The command line that \<^verbatim>\<open>compile_project\<close> runs depends on the compiler name and
  the platform name only: two runs that agree on these run the same tokens in the same
  order, whatever the search path, the child processes, the script directory, the working
  directory and the earlier events are.
\<close>

theorem build_command_deterministic:
  "system en = system en' \<Longrightarrow>
     commands_run (events_of w (snd (compile_project en c w)))
       = commands_run (events_of w' (snd (compile_project en' c w')))"
  by (simp add: compile_project_commands)

theorem build_command_deterministic_witness:
  "system (sample_env ''Linux'' [''g++''] (Exited 0 [] []) (Exited 0 [] []))
     = system (sample_env ''Linux'' [''g++'', ''clang++''] Overruns Interrupted)
   \<and> commands_run (events_of \<lparr>files = source_tree, trace = []\<rparr>
        (snd (compile_project (sample_env ''Linux'' [''g++''] (Exited 0 [] []) (Exited 0 [] []))
           ''g++'' \<lparr>files = source_tree, trace = []\<rparr>)))
     = commands_run (events_of \<lparr>files = Map.empty, trace = [Print Title]\<rparr>
        (snd (compile_project (sample_env ''Linux'' [''g++'', ''clang++''] Overruns Interrupted)
           ''g++'' \<lparr>files = Map.empty, trace = [Print Title]\<rparr>)))"
  using build_command_deterministic[of
      "sample_env ''Linux'' [''g++''] (Exited 0 [] []) (Exited 0 [] [])"
      "sample_env ''Linux'' [''g++'', ''clang++''] Overruns Interrupted"
      "\<lparr>files = source_tree, trace = []\<rparr>" "''g++''"
      "\<lparr>files = Map.empty, trace = [Print Title]\<rparr>"]
  by (simp add: sample_env_def)

text \<open>
  C1. When at least one of \<^verbatim>\<open>main.cpp\<close>, \<^verbatim>\<open>User.h\<close>, \<^verbatim>\<open>RideManager.h\<close> is absent from
  the working directory, \<^verbatim>\<open>main\<close> returns 1 after the header, the change of directory,
  the three existence checks and the report of the missing files, which lists exactly
  the absent required files; the directory is left as it was, the search path is not
  probed, no artifact name is looked at or removed, and no process is started.
\<close>

theorem preflight_missing_sources:
  assumes "\<exists>f \<in> set required_files. files w f = None"
  shows "main en w =
     (Return 1,
      w\<lparr>trace := trace w @
         [Print (Text (replicate 50 CHR ''='')), Print Title,
          Print (Text (replicate 50 CHR ''='')),
          Chdir (script_dir en), Print (WorkingDirectory (script_dir en)),
          PathExists ''main.cpp'', PathExists ''User.h'', PathExists ''RideManager.h'',
          Print (MissingSources (filter (\<lambda>f. files w f = None) required_files))]\<rparr>)
   \<and> set (filter (\<lambda>f. files w f = None) required_files)
       = {f \<in> {''main.cpp'', ''User.h'', ''RideManager.h''}. files w f = None}
   \<and> files (snd (main en w)) = files w
   \<and> (\<forall>c. Which c \<notin> set (events_of w (snd (main en w))))
   \<and> (\<forall>f. Remove f \<notin> set (events_of w (snd (main en w))))
   \<and> (\<forall>f. PathExists f \<in> set (events_of w (snd (main en w))) \<longrightarrow> f \<notin> set files_to_remove)
   \<and> commands_run (events_of w (snd (main en w))) = []"
proof -
  from assms have ne: "filter (\<lambda>f. files w f = None) required_files \<noteq> []"
    by (simp add: filter_empty_conv)
  let ?ms = "filter (\<lambda>f. files w f = None) required_files"
  let ?es = "preflight_events en @ [Print (MissingSources ?ms)]"
  have m: "main en w = (Return 1, w\<lparr>trace := trace w @ ?es\<rparr>)"
    by (rule main_missing[OF ne])
  have ev: "events_of w (snd (main en w)) = ?es"
    by (simp add: m)
  have c1: "main en w =
     (Return 1,
      w\<lparr>trace := trace w @
         [Print (Text (replicate 50 CHR ''='')), Print Title,
          Print (Text (replicate 50 CHR ''='')),
          Chdir (script_dir en), Print (WorkingDirectory (script_dir en)),
          PathExists ''main.cpp'', PathExists ''User.h'', PathExists ''RideManager.h'',
          Print (MissingSources ?ms)]\<rparr>)"
    by (simp add: m preflight_events_def)
  have c2: "set ?ms = {f \<in> {''main.cpp'', ''User.h'', ''RideManager.h''}. files w f = None}"
  proof -
    have "set required_files = {''main.cpp'', ''User.h'', ''RideManager.h''}"
      by (simp add: required_files_def)
    then show ?thesis by (simp only: set_filter)
  qed
  have c3: "files (snd (main en w)) = files w"
    by (simp add: m)
  have c4: "\<forall>c. Which c \<notin> set (events_of w (snd (main en w)))"
    by (simp add: ev preflight_events_def)
  have c5: "\<forall>f. Remove f \<notin> set (events_of w (snd (main en w)))"
    by (simp add: ev preflight_events_def)
  have c6: "\<forall>f. PathExists f \<in> set (events_of w (snd (main en w))) \<longrightarrow> f \<notin> set files_to_remove"
    by (simp add: ev preflight_events_def files_to_remove_def)
  have c7: "commands_run (events_of w (snd (main en w))) = []"
    by (simp add: ev preflight_events_def)
  from c1 c2 c3 c4 c5 c6 c7 show ?thesis by blast
qed

theorem preflight_missing_sources_witness:
  "(\<exists>f \<in> set required_files. files \<lparr>files = Map.empty, trace = []\<rparr> f = None)
   \<and> main (sample_env ''Linux'' [''g++''] (Exited 0 [] []) (Exited 0 [] []))
        \<lparr>files = Map.empty, trace = []\<rparr> =
     (Return 1,
      \<lparr>files = Map.empty,
       trace = [Print (Text (replicate 50 CHR ''='')), Print Title,
          Print (Text (replicate 50 CHR ''='')),
          Chdir ''/home/dev/ride'', Print (WorkingDirectory ''/home/dev/ride''),
          PathExists ''main.cpp'', PathExists ''User.h'', PathExists ''RideManager.h'',
          Print (MissingSources [''main.cpp'', ''User.h'', ''RideManager.h''])]\<rparr>)
   \<and> (\<exists>f \<in> set required_files.
         files \<lparr>files = source_tree(''User.h'' := None), trace = []\<rparr> f = None)
   \<and> main (sample_env ''Linux'' [''g++''] (Exited 0 [] []) (Exited 0 [] []))
        \<lparr>files = source_tree(''User.h'' := None), trace = []\<rparr> =
     (Return 1,
      \<lparr>files = source_tree(''User.h'' := None),
       trace = [Print (Text (replicate 50 CHR ''='')), Print Title,
          Print (Text (replicate 50 CHR ''='')),
          Chdir ''/home/dev/ride'', Print (WorkingDirectory ''/home/dev/ride''),
          PathExists ''main.cpp'', PathExists ''User.h'', PathExists ''RideManager.h'',
          Print (MissingSources [''User.h''])]\<rparr>)"
proof -
  let ?en = "sample_env ''Linux'' [''g++''] (Exited 0 [] []) (Exited 0 [] [])"
  let ?w1 = "\<lparr>files = Map.empty, trace = []\<rparr>"
  let ?w2 = "\<lparr>files = source_tree(''User.h'' := None), trace = []\<rparr>"
  have h1: "\<exists>f \<in> set required_files. files ?w1 f = None"
    by (rule bexI[of _ "''main.cpp''"]) (simp_all add: required_files_def)
  have h2: "\<exists>f \<in> set required_files. files ?w2 f = None"
    by (rule bexI[of _ "''User.h''"]) (simp_all add: required_files_def)
  have a: "main ?en ?w1 = (Return 1,
      \<lparr>files = Map.empty,
       trace = [Print (Text (replicate 50 CHR ''='')), Print Title,
          Print (Text (replicate 50 CHR ''='')),
          Chdir ''/home/dev/ride'', Print (WorkingDirectory ''/home/dev/ride''),
          PathExists ''main.cpp'', PathExists ''User.h'', PathExists ''RideManager.h'',
          Print (MissingSources [''main.cpp'', ''User.h'', ''RideManager.h''])]\<rparr>)"
    using preflight_missing_sources[OF h1, of ?en]
    by (simp add: required_files_def sample_env_def)
  have b: "main ?en ?w2 = (Return 1,
      \<lparr>files = source_tree(''User.h'' := None),
       trace = [Print (Text (replicate 50 CHR ''='')), Print Title,
          Print (Text (replicate 50 CHR ''='')),
          Chdir ''/home/dev/ride'', Print (WorkingDirectory ''/home/dev/ride''),
          PathExists ''main.cpp'', PathExists ''User.h'', PathExists ''RideManager.h'',
          Print (MissingSources [''User.h''])]\<rparr>)"
    using preflight_missing_sources[OF h2, of ?en]
    by (simp add: required_files_def sample_env_def source_tree_def)
  from h1 h2 a b show ?thesis by blast
qed

text \<open>
  C8. When none of \<^verbatim>\<open>rideeasy.exe\<close>, \<^verbatim>\<open>rideeasy\<close>, \<^verbatim>\<open>a.out\<close> is in the working
  directory, \<^verbatim>\<open>clean_build\<close> returns normally and only looks at the three names: the
  directory is unchanged, nothing is removed and nothing is printed. A second run right
  after a run that returned is such a run.
\<close>

theorem clean_idempotent:
  "((\<forall>f \<in> set files_to_remove. files w f = None) \<longrightarrow>
      clean_build w =
        (Return (),
         w\<lparr>trace := trace w @
            [PathExists ''rideeasy.exe'', PathExists ''rideeasy'', PathExists ''a.out'']\<rparr>))
   \<and> (fst (clean_build w) = Return () \<longrightarrow>
      clean_build (snd (clean_build w)) =
        (Return (),
         (snd (clean_build w))\<lparr>trace := trace (snd (clean_build w)) @
            [PathExists ''rideeasy.exe'', PathExists ''rideeasy'', PathExists ''a.out'']\<rparr>))"
proof -
  have m: "map PathExists files_to_remove =
     [PathExists ''rideeasy.exe'', PathExists ''rideeasy'', PathExists ''a.out'']"
    by (simp add: files_to_remove_def)
  have a: "(\<forall>f \<in> set files_to_remove. files w f = None) \<longrightarrow>
     clean_build w =
       (Return (),
        w\<lparr>trace := trace w @
           [PathExists ''rideeasy.exe'', PathExists ''rideeasy'', PathExists ''a.out'']\<rparr>)"
    using clean_build_loop_absent[of files_to_remove w]
    by (simp only: clean_build_def m) blast
  have b: "fst (clean_build w) = Return () \<longrightarrow>
     clean_build (snd (clean_build w)) =
       (Return (),
        (snd (clean_build w))\<lparr>trace := trace (snd (clean_build w)) @
           [PathExists ''rideeasy.exe'', PathExists ''rideeasy'', PathExists ''a.out'']\<rparr>)"
  proof
    assume r: "fst (clean_build w) = Return ()"
    then have "\<forall>f\<in>set files_to_remove. files (snd (clean_build w)) f = None"
      using clean_build_loop_Return[of files_to_remove w]
      by (simp add: clean_build_def)
    from clean_build_loop_absent[OF this] show "clean_build (snd (clean_build w)) =
       (Return (),
        (snd (clean_build w))\<lparr>trace := trace (snd (clean_build w)) @
           [PathExists ''rideeasy.exe'', PathExists ''rideeasy'', PathExists ''a.out'']\<rparr>)"
      by (simp only: clean_build_def m)
  qed
  from a b show ?thesis by blast
qed

theorem clean_idempotent_witness:
  "source_tree ''rideeasy.exe'' = None \<and> source_tree ''rideeasy'' = None
   \<and> source_tree ''a.out'' = None
   \<and> clean_build \<lparr>files = source_tree, trace = []\<rparr> =
       (Return (),
        \<lparr>files = source_tree,
         trace = [PathExists ''rideeasy.exe'', PathExists ''rideeasy'', PathExists ''a.out'']\<rparr>)
   \<and> fst (clean_build \<lparr>files = source_tree(''rideeasy'' \<mapsto> File), trace = []\<rparr>) = Return ()
   \<and> clean_build (snd (clean_build \<lparr>files = source_tree(''rideeasy'' \<mapsto> File), trace = []\<rparr>)) =
       (Return (),
        \<lparr>files = (source_tree(''rideeasy'' \<mapsto> File))(''rideeasy'' := None),
         trace = [PathExists ''rideeasy.exe'', PathExists ''rideeasy'', Remove ''rideeasy'',
                  Print (Cleaned ''rideeasy''), PathExists ''a.out'',
                  PathExists ''rideeasy.exe'', PathExists ''rideeasy'', PathExists ''a.out'']\<rparr>)"
proof -
  let ?w0 = "\<lparr>files = source_tree, trace = []\<rparr>"
  let ?w1 = "\<lparr>files = source_tree(''rideeasy'' \<mapsto> File), trace = []\<rparr>"
  have h0: "\<forall>f \<in> set files_to_remove. files ?w0 f = None"
    by (simp add: files_to_remove_def source_tree_def)
  have h1: "fst (clean_build ?w1) = Return ()"
    by (simp add: clean_build_stale)
  have a: "clean_build ?w0 =
       (Return (),
        \<lparr>files = source_tree,
         trace = [PathExists ''rideeasy.exe'', PathExists ''rideeasy'', PathExists ''a.out'']\<rparr>)"
    using clean_idempotent[of ?w0] h0 by simp
  have b: "clean_build (snd (clean_build ?w1)) =
       (Return (),
        \<lparr>files = (source_tree(''rideeasy'' \<mapsto> File))(''rideeasy'' := None),
         trace = [PathExists ''rideeasy.exe'', PathExists ''rideeasy'', Remove ''rideeasy'',
                  Print (Cleaned ''rideeasy''), PathExists ''a.out'',
                  PathExists ''rideeasy.exe'', PathExists ''rideeasy'', PathExists ''a.out'']\<rparr>)"
    using clean_idempotent[of ?w1] h1 by (simp add: clean_build_stale)
  from h0 have h0': "source_tree ''rideeasy.exe'' = None" "source_tree ''rideeasy'' = None"
      "source_tree ''a.out'' = None"
    by (simp_all add: files_to_remove_def)
  from h0' h1 a b show ?thesis by blast
qed

text \<open>
  C7. \<^verbatim>\<open>clean_build\<close> returns whenever each of \<^verbatim>\<open>rideeasy.exe\<close>, \<^verbatim>\<open>rideeasy\<close>,
  \<^verbatim>\<open>a.out\<close> is absent or a file that can be deleted, and when it returns none of the
  three is in the working directory. In any run of \<^verbatim>\<open>main\<close>, at the moment the compiler is
  started, every one of the three names has been looked at by \<^verbatim>\<open>clean_build\<close> earlier in
  the run and none of them is in the directory that the compiler sees.
\<close>

theorem no_stale_artifact:
  "((\<forall>f \<in> set files_to_remove. files w f = None \<or> files w f = Some File) \<longrightarrow>
      fst (clean_build w) = Return ())
   \<and> (fst (clean_build w) = Return () \<longrightarrow>
      (\<forall>f \<in> set files_to_remove. files (snd (clean_build w)) f = None))
   \<and> (\<forall>pre c t fs post.
        events_of w (snd (main en w))
          = pre @ SubprocessRun (build_cmd (system en) c) t fs # post \<longrightarrow>
        (\<forall>f \<in> set files_to_remove. PathExists f \<in> set pre \<and> fs f = None))"
proof -
  have t: "(\<forall>f \<in> set files_to_remove. files w f = None \<or> files w f = Some File) \<longrightarrow>
      fst (clean_build w) = Return ()"
    using clean_build_loop_ok[of files_to_remove w] by (simp add: clean_build_def)
  have a: "fst (clean_build w) = Return () \<longrightarrow>
      (\<forall>f \<in> set files_to_remove. files (snd (clean_build w)) f = None)"
    using clean_build_loop_Return[of files_to_remove w] by (simp add: clean_build_def)
  have b: "\<forall>f \<in> set files_to_remove. PathExists f \<in> set pre \<and> fs f = None"
    if ev: "events_of w (snd (main en w))
          = pre @ SubprocessRun (build_cmd (system en) c) t fs # post"
    for pre c t fs post
  proof -
    from ev have mem: "SubprocessRun (build_cmd (system en) c) t fs
        \<in> set (events_of w (snd (main en w)))" by simp
    show ?thesis
    proof (cases rule: main_cases[of w en])
      case Missing
      with mem show ?thesis
        by (simp add: preflight_events_no_subprocess)
    next
      case (CleanStopped r w5 ec)
      with mem clean_events_no_subprocess[of ec] show ?thesis
        by (simp add: events_of_def preflight_events_no_subprocess)
    next
      case (NoCompiler w5 ec)
      with mem clean_events_no_subprocess[of ec] show ?thesis
        by (simp add: events_of_def preflight_events_no_subprocess resolver_events_no_subprocess)
    next
      case (Resolved c0 w5 ec)
      let ?w6 = "w5\<lparr>trace := trace w5 @ resolver_events en\<rparr>"
      let ?xs = "preflight_events en @ ec @ resolver_events en @
           [Print (Compiling c0),
            Print (Text (''Command: '' @ join '' '' (build_cmd (system en) c0)))]"
      let ?Q = "\<lambda>e. \<exists>c' t fs. e = SubprocessRun (build_cmd (system en) c') t fs"
      from build_and_run_events[of en c0 ?w6] obtain tail where
        tr: "trace (snd (build_and_run en c0 ?w6)) =
           trace ?w6 @ [Print (Compiling c0),
              Print (Text (''Command: '' @ join '' '' (build_cmd (system en) c0)))] @
           SubprocessRun (build_cmd (system en) c0) (Some 30) (files ?w6) # tail"
        and tl: "\<forall>c' t fs. SubprocessRun (build_cmd (system en) c') t fs \<notin> set tail"
        by blast
      have e2: "events_of w (snd (main en w)) =
          ?xs @ SubprocessRun (build_cmd (system en) c0) (Some 30) (files w5) # tail"
        using tr by (simp add: Resolved(3,4) events_of_def)
      have nx: "\<forall>e\<in>set ?xs. \<not> ?Q e"
        using clean_events_no_subprocess[OF Resolved(5)]
        by (auto simp add: preflight_events_no_subprocess resolver_events_no_subprocess)
      have nt: "\<forall>e\<in>set tail. \<not> ?Q e"
        using tl by auto
      have q: "?Q (SubprocessRun (build_cmd (system en) c) t fs)" by blast
      from ev e2 have "?xs @ SubprocessRun (build_cmd (system en) c0) (Some 30) (files w5) # tail
          = pre @ SubprocessRun (build_cmd (system en) c) t fs # post" by simp
      from split_unique[where Q = ?Q, OF this q nx nt]
      have p: "pre = ?xs" and f: "fs = files w5" by simp_all
      show ?thesis
        using Resolved(6,7) by (simp add: p f)
    qed
  qed
  from t a b show ?thesis by blast
qed


theorem no_stale_artifact_witness:
  "(source_tree(''rideeasy'' \<mapsto> File)) ''rideeasy.exe'' = None
   \<and> (source_tree(''rideeasy'' \<mapsto> File)) ''rideeasy'' = Some File
   \<and> (source_tree(''rideeasy'' \<mapsto> File)) ''a.out'' = None
   \<and> fst (clean_build \<lparr>files = source_tree(''rideeasy'' \<mapsto> File), trace = []\<rparr>) = Return ()
   \<and> files (snd (clean_build \<lparr>files = source_tree(''rideeasy'' \<mapsto> File), trace = []\<rparr>))
        ''rideeasy'' = None
   \<and> events_of \<lparr>files = source_tree(''rideeasy'' \<mapsto> File), trace = []\<rparr>
        (snd (main (sample_env ''Linux'' [''g++''] (Exited 1 [] ''error'') (Exited 0 [] []))
           \<lparr>files = source_tree(''rideeasy'' \<mapsto> File), trace = []\<rparr>))
      = [Print (Text (replicate 50 CHR ''='')), Print Title, Print (Text (replicate 50 CHR ''='')),
         Chdir ''/home/dev/ride'', Print (WorkingDirectory ''/home/dev/ride''),
         PathExists ''main.cpp'', PathExists ''User.h'', PathExists ''RideManager.h'',
         PathExists ''rideeasy.exe'', PathExists ''rideeasy'', Remove ''rideeasy'',
         Print (Cleaned ''rideeasy''), PathExists ''a.out'',
         Which ''g++'', Print (FoundCompiler ''g++''),
         Print (Compiling ''g++''),
         Print (Text ''Command: g++ -std=c++17 -Wall -Wextra -O2 -I. main.cpp -o rideeasy'')]
        @ SubprocessRun (build_cmd ''Linux'' ''g++'') (Some 30) (source_tree(''rideeasy'' := None))
        # [Print CompilationFailed, Print (Stdout (Str [])), Print (Stderr (Str (map of_char ''error'')))]
   \<and> (source_tree(''rideeasy'' := None)) ''rideeasy'' = None
   \<and> (source_tree(''rideeasy'' := None)) ''rideeasy.exe'' = None
   \<and> (source_tree(''rideeasy'' := None)) ''a.out'' = None"
proof -
  let ?en = "sample_env ''Linux'' [''g++''] (Exited 1 [] ''error'') (Exited 0 [] [])"
  let ?w = "\<lparr>files = source_tree(''rideeasy'' \<mapsto> File), trace = []\<rparr>"
  let ?pre = "[Print (Text (replicate 50 CHR ''='')), Print Title, Print (Text (replicate 50 CHR ''='')),
         Chdir ''/home/dev/ride'', Print (WorkingDirectory ''/home/dev/ride''),
         PathExists ''main.cpp'', PathExists ''User.h'', PathExists ''RideManager.h'',
         PathExists ''rideeasy.exe'', PathExists ''rideeasy'', Remove ''rideeasy'',
         Print (Cleaned ''rideeasy''), PathExists ''a.out'',
         Which ''g++'', Print (FoundCompiler ''g++''),
         Print (Compiling ''g++''),
         Print (Text ''Command: g++ -std=c++17 -Wall -Wextra -O2 -I. main.cpp -o rideeasy'')]"
  let ?post = "[Print CompilationFailed, Print (Stdout (Str [])), Print (Stderr (Str (map of_char ''error'')))]"
  have sys: "system ?en = ''Linux''"
    by (simp add: sample_env_def)
  have h0: "(source_tree(''rideeasy'' \<mapsto> File)) ''rideeasy.exe'' = None"
    "(source_tree(''rideeasy'' \<mapsto> File)) ''rideeasy'' = Some File"
    "(source_tree(''rideeasy'' \<mapsto> File)) ''a.out'' = None"
    by (simp_all add: source_tree_def)
  then have h0': "\<forall>f \<in> set files_to_remove. files ?w f = None \<or> files ?w f = Some File"
    by (simp add: files_to_remove_def)
  from no_stale_artifact[of ?w ?en] h0' have h1: "fst (clean_build ?w) = Return ()"
    by blast
  have ev: "events_of ?w (snd (main ?en ?w))
      = ?pre @ SubprocessRun (build_cmd (system ?en) ''g++'') (Some 30)
                 (source_tree(''rideeasy'' := None)) # ?post"
    by (simp add: main_stale_failed_build events_of_def sys)
  note t = no_stale_artifact[of ?w ?en]
  from t h1 have a: "\<forall>f \<in> set files_to_remove. files (snd (clean_build ?w)) f = None"
    by blast
  from t ev have b: "\<forall>f \<in> set files_to_remove.
      PathExists f \<in> set ?pre \<and> (source_tree(''rideeasy'' := None)) f = None"
    by blast
  from a have a': "files (snd (clean_build ?w)) ''rideeasy'' = None"
    by (simp add: files_to_remove_def)
  from b have b': "(source_tree(''rideeasy'' := None)) ''rideeasy'' = None"
    "(source_tree(''rideeasy'' := None)) ''rideeasy.exe'' = None"
    "(source_tree(''rideeasy'' := None)) ''a.out'' = None"
    by (simp_all add: files_to_remove_def)
  from h0 h1 a' ev b' show ?thesis
    by (simp only: sys)
qed

text \<open>
  C5. \<^verbatim>\<open>check_compiler\<close> asks the search path for \<^verbatim>\<open>g++\<close> and then for \<^verbatim>\<open>clang++\<close>,
  stops at the first name that is found and returns it; the names before it are the only
  other names probed. When neither is found it reports that no compiler was found and
  returns \<open>None\<close>; \<^verbatim>\<open>main\<close> then starts no process at all and does not return 0, and
  returns 1 with that report whenever the preflight check and \<^verbatim>\<open>clean_build\<close> let the run
  reach the resolver.
\<close>

theorem resolver_first_found:
  "fst (check_compiler en w)
     = Return (find (\<lambda>c. truthy (which en c)) [''g++'', ''clang++''])
   \<and> events_of w (snd (check_compiler en w))
     = map Which (takeWhile (\<lambda>c. \<not> truthy (which en c)) [''g++'', ''clang++'']) @
       (case find (\<lambda>c. truthy (which en c)) [''g++'', ''clang++''] of
          Some c \<Rightarrow> [Which c, Print (FoundCompiler c)]
        | None \<Rightarrow>
            [Print NoCompilerFound,
             Print (Text ''Please install one of the following:''),
             Print (Text ''  - MinGW-w64 (Windows): https://www.mingw-w64.org/''),
             Print (Text ''  - GCC (Linux): sudo apt install g++''),
             Print (Text ''  - Xcode Command Line Tools (macOS): xcode-select --install'')])
   \<and> files (snd (check_compiler en w)) = files w
   \<and> ((\<forall>c \<in> set compilers. \<not> truthy (which en c)) \<longrightarrow>
        fst (check_compiler en w) = Return None
        \<and> commands_run (events_of w (snd (main en w))) = []
        \<and> fst (main en w) \<noteq> Return 0
        \<and> ((\<forall>f \<in> set required_files. files w f \<noteq> None)
            \<and> (\<forall>f \<in> set files_to_remove. files w f = None \<or> files w f = Some File)
            \<longrightarrow> fst (main en w) = Return 1
                \<and> Print NoCompilerFound \<in> set (events_of w (snd (main en w)))))"
proof -
  have a: "fst (check_compiler en w)
     = Return (find (\<lambda>c. truthy (which en c)) [''g++'', ''clang++''])"
    by (simp add: check_compiler_eq compilers_def)
  have b: "events_of w (snd (check_compiler en w))
     = map Which (takeWhile (\<lambda>c. \<not> truthy (which en c)) [''g++'', ''clang++'']) @
       (case find (\<lambda>c. truthy (which en c)) [''g++'', ''clang++''] of
          Some c \<Rightarrow> [Which c, Print (FoundCompiler c)]
        | None \<Rightarrow>
            [Print NoCompilerFound,
             Print (Text ''Please install one of the following:''),
             Print (Text ''  - MinGW-w64 (Windows): https://www.mingw-w64.org/''),
             Print (Text ''  - GCC (Linux): sudo apt install g++''),
             Print (Text ''  - Xcode Command Line Tools (macOS): xcode-select --install'')])"
    unfolding check_compiler_eq resolver_events_def compilers_def by simp
  have c: "files (snd (check_compiler en w)) = files w"
    by (simp add: check_compiler_eq)
  have d: "fst (check_compiler en w) = Return None
        \<and> commands_run (events_of w (snd (main en w))) = []
        \<and> fst (main en w) \<noteq> Return 0
        \<and> ((\<forall>f \<in> set required_files. files w f \<noteq> None)
            \<and> (\<forall>f \<in> set files_to_remove. files w f = None \<or> files w f = Some File)
            \<longrightarrow> fst (main en w) = Return 1
                \<and> Print NoCompilerFound \<in> set (events_of w (snd (main en w))))"
    if none: "\<forall>c \<in> set compilers. \<not> truthy (which en c)"
  proof -
    from none have fn: "find (\<lambda>c. truthy (which en c)) compilers = None"
      by (simp add: find_None_all)
    have d1: "fst (check_compiler en w) = Return None"
      by (simp add: check_compiler_eq fn)
    have d2: "commands_run (events_of w (snd (main en w))) = []
        \<and> fst (main en w) \<noteq> Return 0
        \<and> ((\<forall>f \<in> set required_files. files w f \<noteq> None)
            \<and> (\<forall>f \<in> set files_to_remove. files w f = None \<or> files w f = Some File)
            \<longrightarrow> fst (main en w) = Return 1
                \<and> Print NoCompilerFound \<in> set (events_of w (snd (main en w))))"
    proof (cases rule: main_cases[of w en])
      case Missing
      from Missing(1) have neg: "\<not> (\<forall>f \<in> set required_files. files w f \<noteq> None)"
        by (simp add: filter_empty_conv)
      have "commands_run (events_of w (snd (main en w))) = []"
        by (simp add: Missing(2) commands_run_append commands_run_preflight)
      moreover have "fst (main en w) \<noteq> Return 0"
        by (simp add: Missing(2))
      ultimately show ?thesis using neg by blast
    next
      case (CleanStopped r w5 ec)
      have "events_of w (snd (main en w)) = preflight_events en @ ec"
        by (simp add: CleanStopped(3,4) events_of_def)
      with CleanStopped(2,3,6) commands_run_clean[OF CleanStopped(5)] show ?thesis
        by (simp add: commands_run_append commands_run_preflight)
    next
      case (NoCompiler w5 ec)
      have "events_of w (snd (main en w)) = preflight_events en @ ec @ resolver_events en"
        by (simp add: NoCompiler(3,4) events_of_def)
      moreover have "Print NoCompilerFound \<in> set (resolver_events en)"
        by (simp add: resolver_events_def fn)
      ultimately show ?thesis
        using NoCompiler(3) commands_run_clean[OF NoCompiler(5)]
        by (simp add: commands_run_append commands_run_preflight commands_run_resolver)
    next
      case (Resolved c0 w5 ec)
      with fn show ?thesis by simp
    qed
    from d1 d2 show ?thesis by blast
  qed
  from a b c d show ?thesis by blast
qed


theorem resolver_first_found_witness:
  "fst (check_compiler (sample_env ''Linux'' [''g++'', ''clang++''] Overruns Overruns)
          \<lparr>files = source_tree, trace = []\<rparr>) = Return (Some ''g++'')
   \<and> events_of \<lparr>files = source_tree, trace = []\<rparr>
        (snd (check_compiler (sample_env ''Linux'' [''g++'', ''clang++''] Overruns Overruns)
          \<lparr>files = source_tree, trace = []\<rparr>))
       = [Which ''g++'', Print (FoundCompiler ''g++'')]
   \<and> fst (check_compiler (sample_env ''Linux'' [''clang++''] Overruns Overruns)
          \<lparr>files = source_tree, trace = []\<rparr>) = Return (Some ''clang++'')
   \<and> events_of \<lparr>files = source_tree, trace = []\<rparr>
        (snd (check_compiler (sample_env ''Linux'' [''clang++''] Overruns Overruns)
          \<lparr>files = source_tree, trace = []\<rparr>))
       = [Which ''g++'', Which ''clang++'', Print (FoundCompiler ''clang++'')]
   \<and> \<not> truthy (which (sample_env ''Linux'' [] Overruns Overruns) ''g++'')
   \<and> \<not> truthy (which (sample_env ''Linux'' [] Overruns Overruns) ''clang++'')
   \<and> fst (main (sample_env ''Linux'' [] Overruns Overruns)
          \<lparr>files = source_tree, trace = []\<rparr>) = Return 1
   \<and> commands_run (events_of \<lparr>files = source_tree, trace = []\<rparr>
        (snd (main (sample_env ''Linux'' [] Overruns Overruns)
          \<lparr>files = source_tree, trace = []\<rparr>))) = []
   \<and> Print NoCompilerFound \<in> set (events_of \<lparr>files = source_tree, trace = []\<rparr>
        (snd (main (sample_env ''Linux'' [] Overruns Overruns)
          \<lparr>files = source_tree, trace = []\<rparr>)))"
proof -
  let ?w = "\<lparr>files = source_tree, trace = []\<rparr>"
  let ?both = "sample_env ''Linux'' [''g++'', ''clang++''] Overruns Overruns"
  let ?clang = "sample_env ''Linux'' [''clang++''] Overruns Overruns"
  let ?none = "sample_env ''Linux'' [] Overruns Overruns"
  have a: "fst (check_compiler ?both ?w) = Return (Some ''g++'')
     \<and> events_of ?w (snd (check_compiler ?both ?w)) = [Which ''g++'', Print (FoundCompiler ''g++'')]"
    using resolver_first_found[of ?both ?w]
    by (simp add: sample_env_def path_with_def)
  have b: "fst (check_compiler ?clang ?w) = Return (Some ''clang++'')
     \<and> events_of ?w (snd (check_compiler ?clang ?w))
       = [Which ''g++'', Which ''clang++'', Print (FoundCompiler ''clang++'')]"
    using resolver_first_found[of ?clang ?w]
    by (simp add: sample_env_def path_with_def)
  have n: "\<forall>c \<in> set compilers. \<not> truthy (which ?none c)"
    by (simp add: sample_env_def path_with_def)
  have p: "\<forall>f \<in> set required_files. files ?w f \<noteq> None"
    by (simp add: required_files_def source_tree_def)
  have q: "\<forall>f \<in> set files_to_remove. files ?w f = None \<or> files ?w f = Some File"
    by (simp add: files_to_remove_def source_tree_def)
  from resolver_first_found[of ?none ?w] n p q
  have c: "fst (main ?none ?w) = Return 1
     \<and> commands_run (events_of ?w (snd (main ?none ?w))) = []
     \<and> Print NoCompilerFound \<in> set (events_of ?w (snd (main ?none ?w)))"
    by blast
  from n have n': "\<not> truthy (which ?none ''g++'')" "\<not> truthy (which ?none ''clang++'')"
    by (simp_all add: compilers_def)
  from a b c n' show ?thesis by blast
qed

text \<open>
  C6. \<^verbatim>\<open>run_executable\<close> never raises. An executable that exits with a non-zero code
  is reported as a runtime error with that code; an interrupt by the operator is reported
  as an interruption; an executable that cannot be started is reported as an execution
  error; in each case \<^verbatim>\<open>run_executable\<close> returns normally. Whenever one of these three
  reports appears in a run of \<^verbatim>\<open>main\<close>, \<^verbatim>\<open>main\<close> returns 0.
\<close>

theorem run_outcomes:
  "(\<forall>e. fst (run_executable en x w) \<noteq> Raise e)
   \<and> (child_result en (run_cmd (system en) x) = Exited rc out err \<and> rc \<noteq> 0 \<longrightarrow>
      run_executable en x w =
        (Return (),
         w\<lparr>trace := trace w @ run_events en x (files w) @ [Print (RuntimeFailure rc)],
           files := child_effect en (run_cmd (system en) x) (files w)\<rparr>))
   \<and> (child_result en (run_cmd (system en) x) = Interrupted \<longrightarrow>
      run_executable en x w =
        (Return (),
         w\<lparr>trace := trace w @ run_events en x (files w) @ [Print RunInterrupted],
           files := child_effect en (run_cmd (system en) x) (files w)\<rparr>))
   \<and> (child_result en (run_cmd (system en) x) = SpawnFailed msg \<longrightarrow>
      run_executable en x w =
        (Return (),
         w\<lparr>trace := trace w @ run_events en x (files w) @
              [Print (RunInvocationError (OSError msg))]\<rparr>))
   \<and> (Print RunInterrupted \<in> set (events_of w (snd (main en w)))
       \<or> (\<exists>rc. Print (RuntimeFailure rc) \<in> set (events_of w (snd (main en w))))
       \<or> (\<exists>e. Print (RunInvocationError e) \<in> set (events_of w (snd (main en w))))
       \<longrightarrow> fst (main en w) = Return 0)"
proof -
  have a: "\<forall>e. fst (run_executable en x w) \<noteq> Raise e"
    by (simp add: run_executable_eq split: child_outcome.splits)
  have b: "child_result en (run_cmd (system en) x) = Exited rc out err \<and> rc \<noteq> 0 \<longrightarrow>
      run_executable en x w =
        (Return (),
         w\<lparr>trace := trace w @ run_events en x (files w) @ [Print (RuntimeFailure rc)],
           files := child_effect en (run_cmd (system en) x) (files w)\<rparr>)"
    by (simp add: run_executable_eq)
  have c: "child_result en (run_cmd (system en) x) = Interrupted \<longrightarrow>
      run_executable en x w =
        (Return (),
         w\<lparr>trace := trace w @ run_events en x (files w) @ [Print RunInterrupted],
           files := child_effect en (run_cmd (system en) x) (files w)\<rparr>)"
    by (simp add: run_executable_eq)
  have d: "child_result en (run_cmd (system en) x) = SpawnFailed msg \<longrightarrow>
      run_executable en x w =
        (Return (),
         w\<lparr>trace := trace w @ run_events en x (files w) @
              [Print (RunInvocationError (OSError msg))]\<rparr>)"
    by (simp add: run_executable_eq)
  have e: "fst (main en w) = Return 0"
    if mem: "Print m \<in> set (events_of w (snd (main en w)))"
      and rep: "m = RunInterrupted \<or> (\<exists>rc. m = RuntimeFailure rc) \<or> (\<exists>e. m = RunInvocationError e)"
    for m
  proof (cases rule: main_cases[of w en])
    case Missing
    with mem rep show ?thesis by (auto simp add: preflight_events_def)
  next
    case (CleanStopped r w5 ec)
    have "events_of w (snd (main en w)) = preflight_events en @ ec"
      by (simp add: CleanStopped(3,4) events_of_def)
    with mem have "Print m \<in> set (preflight_events en @ ec @ resolver_events en)"
      by auto
    from early_events[OF CleanStopped(5) this] rep show ?thesis by blast
  next
    case (NoCompiler w5 ec)
    have "events_of w (snd (main en w)) = preflight_events en @ ec @ resolver_events en"
      by (simp add: NoCompiler(3,4) events_of_def)
    with mem have "Print m \<in> set (preflight_events en @ ec @ resolver_events en)"
      by simp
    from early_events[OF NoCompiler(5) this] rep show ?thesis by blast
  next
    case (Resolved c0 w5 ec)
    let ?w6 = "w5\<lparr>trace := trace w5 @ resolver_events en\<rparr>"
    let ?late = "events_of ?w6 (snd (build_and_run en c0 ?w6))"
    have "trace (snd (main en w)) = trace ?w6 @ ?late"
      using build_and_run_prefix[of en c0 ?w6] by (simp only: Resolved(3))
    moreover have "trace ?w6 = trace w @ preflight_events en @ ec @ resolver_events en"
      by (simp add: Resolved(4))
    ultimately have ev: "events_of w (snd (main en w)) =
        (preflight_events en @ ec @ resolver_events en) @ ?late"
      by (simp add: events_of_def)
    from mem ev have "Print m \<in> set (preflight_events en @ ec @ resolver_events en)
        \<or> Print m \<in> set ?late"
      by (simp only: set_append Un_iff)
    then show ?thesis
    proof
      assume "Print m \<in> set (preflight_events en @ ec @ resolver_events en)"
      from early_events[OF Resolved(5) this] rep show ?thesis by blast
    next
      assume "Print m \<in> set ?late"
      from build_and_run_reports[OF this rep] show ?thesis
        by (simp only: Resolved(3))
    qed
  qed
  from a b c d e show ?thesis by blast
qed

theorem run_outcomes_witness:
  "run_executable (sample_env ''Linux'' [''g++''] (Exited 0 [] []) (Exited 3 [] [])) ''rideeasy''
       \<lparr>files = source_tree(''rideeasy'' \<mapsto> File), trace = []\<rparr>
     = (Return (),
        \<lparr>files = source_tree(''rideeasy'' \<mapsto> File),
         trace = [Print (Running ''rideeasy''), Print (Text (replicate 50 CHR ''-'')),
            SubprocessRun [''./rideeasy''] None (source_tree(''rideeasy'' \<mapsto> File)),
            Print (RuntimeFailure 3)]\<rparr>)
   \<and> run_executable (sample_env ''Linux'' [''g++''] (Exited 0 [] []) Interrupted) ''rideeasy''
       \<lparr>files = source_tree(''rideeasy'' \<mapsto> File), trace = []\<rparr>
     = (Return (),
        \<lparr>files = source_tree(''rideeasy'' \<mapsto> File),
         trace = [Print (Running ''rideeasy''), Print (Text (replicate 50 CHR ''-'')),
            SubprocessRun [''./rideeasy''] None (source_tree(''rideeasy'' \<mapsto> File)),
            Print RunInterrupted]\<rparr>)
   \<and> run_executable (sample_env ''Windows'' [''g++''] (Exited 0 [] []) (SpawnFailed ''not found''))
       ''rideeasy.exe'' \<lparr>files = source_tree, trace = []\<rparr>
     = (Return (),
        \<lparr>files = source_tree,
         trace = [Print (Running ''rideeasy.exe''), Print (Text (replicate 50 CHR ''-'')),
            SubprocessRun [''rideeasy.exe''] None source_tree,
            Print (RunInvocationError (OSError ''not found''))]\<rparr>)
   \<and> Print RunInterrupted
     \<in> set (events_of \<lparr>files = source_tree, trace = []\<rparr>
          (snd (main (sample_env ''Linux'' [''g++''] (Exited 0 [] []) Interrupted)
             \<lparr>files = source_tree, trace = []\<rparr>)))
   \<and> fst (main (sample_env ''Linux'' [''g++''] (Exited 0 [] []) Interrupted)
             \<lparr>files = source_tree, trace = []\<rparr>) = Return 0"
proof -
  let ?w = "\<lparr>files = source_tree, trace = []\<rparr>"
  let ?w1 = "\<lparr>files = source_tree(''rideeasy'' \<mapsto> File), trace = []\<rparr>"
  let ?rc3 = "sample_env ''Linux'' [''g++''] (Exited 0 [] []) (Exited 3 [] [])"
  let ?int = "sample_env ''Linux'' [''g++''] (Exited 0 [] []) Interrupted"
  let ?gone = "sample_env ''Windows'' [''g++''] (Exited 0 [] []) (SpawnFailed ''not found'')"
  note defs = sample_env_def run_cmd_def run_events_def
  have a: "run_executable ?rc3 ''rideeasy'' ?w1
     = (Return (),
        \<lparr>files = source_tree(''rideeasy'' \<mapsto> File),
         trace = [Print (Running ''rideeasy''), Print (Text (replicate 50 CHR ''-'')),
            SubprocessRun [''./rideeasy''] None (source_tree(''rideeasy'' \<mapsto> File)),
            Print (RuntimeFailure 3)]\<rparr>)"
    using run_outcomes[where en = ?rc3 and x = "''rideeasy''" and w = ?w1 and rc = 3
        and out = "[]" and err = "[]"]
    by (simp add: defs)
  have b: "run_executable ?int ''rideeasy'' ?w1
     = (Return (),
        \<lparr>files = source_tree(''rideeasy'' \<mapsto> File),
         trace = [Print (Running ''rideeasy''), Print (Text (replicate 50 CHR ''-'')),
            SubprocessRun [''./rideeasy''] None (source_tree(''rideeasy'' \<mapsto> File)),
            Print RunInterrupted]\<rparr>)"
    using run_outcomes[where en = ?int and x = "''rideeasy''" and w = ?w1]
    by (simp add: defs)
  have c: "run_executable ?gone ''rideeasy.exe'' ?w
     = (Return (),
        \<lparr>files = source_tree,
         trace = [Print (Running ''rideeasy.exe''), Print (Text (replicate 50 CHR ''-'')),
            SubprocessRun [''rideeasy.exe''] None source_tree,
            Print (RunInvocationError (OSError ''not found''))]\<rparr>)"
    using run_outcomes[where en = ?gone and x = "''rideeasy.exe''" and w = ?w
        and msg = "''not found''"]
    by (simp add: defs)
  note h = main_interrupted_run
  from run_outcomes[where en = ?int and w = ?w] h
  have d: "fst (main ?int ?w) = Return 0" by blast
  from a b c h d show ?thesis by blast
qed

text \<open>
  C10. \<^verbatim>\<open>compile_project\<close> hands exactly one command to \<^verbatim>\<open>subprocess.run\<close>. That command
  starts with the compiler name; of the tokens after it, the only input file is
  \<^verbatim>\<open>main.cpp\<close>, the only include-path option is \<^verbatim>\<open>-I.\<close>, and no token mentions
  \<^verbatim>\<open>User.h\<close> or \<^verbatim>\<open>RideManager.h\<close>, the two headers that the preflight check requires.
\<close>

theorem single_source_input:
  "commands_run (events_of w (snd (compile_project en c w))) = [build_cmd (system en) c]
   \<and> (\<forall>cmd \<in> set (commands_run (events_of w (snd (compile_project en c w)))).
         hd cmd = c
         \<and> input_files (tl cmd) = [''main.cpp'']
         \<and> filter (prefix ''-I'') (tl cmd) = [''-I.'']
         \<and> (\<forall>t \<in> set (tl cmd). \<not> sublist ''User.h'' t \<and> \<not> sublist ''RideManager.h'' t))
   \<and> ''User.h'' \<in> set required_files \<and> ''RideManager.h'' \<in> set required_files"
proof -
  have a: "commands_run (events_of w (snd (compile_project en c w))) = [build_cmd (system en) c]"
    by (rule compile_project_commands)
  have b: "''User.h'' \<in> set required_files \<and> ''RideManager.h'' \<in> set required_files"
    by (simp add: required_files_def)
  show ?thesis
    unfolding a using build_cmd_inputs[of "system en" c] b by simp
qed

theorem single_source_input_witness:
  "commands_run (events_of \<lparr>files = source_tree, trace = []\<rparr>
       (snd (compile_project (sample_env ''Windows'' [''g++''] (Exited 0 [] []) (Exited 0 [] []))
          ''g++'' \<lparr>files = source_tree, trace = []\<rparr>)))
     = [[''g++'', ''-std=c++17'', ''-Wall'', ''-Wextra'', ''-O2'', ''-I.'', ''main.cpp'', ''-o'',
         ''rideeasy.exe'', ''-static-libgcc'', ''-static-libstdc++'']]
   \<and> input_files [''-std=c++17'', ''-Wall'', ''-Wextra'', ''-O2'', ''-I.'', ''main.cpp'', ''-o'',
         ''rideeasy.exe'', ''-static-libgcc'', ''-static-libstdc++''] = [''main.cpp'']
   \<and> filter (prefix ''-I'') [''-std=c++17'', ''-Wall'', ''-Wextra'', ''-O2'', ''-I.'', ''main.cpp'',
         ''-o'', ''rideeasy.exe'', ''-static-libgcc'', ''-static-libstdc++''] = [''-I.'']
   \<and> \<not> sublist ''User.h'' ''main.cpp'' \<and> \<not> sublist ''RideManager.h'' ''main.cpp''"
proof -
  let ?en = "sample_env ''Windows'' [''g++''] (Exited 0 [] []) (Exited 0 [] [])"
  let ?w = "\<lparr>files = source_tree, trace = []\<rparr>"
  let ?cmd = "[''g++'', ''-std=c++17'', ''-Wall'', ''-Wextra'', ''-O2'', ''-I.'', ''main.cpp'', ''-o'',
         ''rideeasy.exe'', ''-static-libgcc'', ''-static-libstdc++'']"
  have c: "build_cmd (system ?en) ''g++'' = ?cmd"
    by (simp add: sample_env_def build_cmd_def exe_name_for_def)
  note t = single_source_input[of ?w ?en "''g++''"]
  from t have a: "commands_run (events_of ?w (snd (compile_project ?en ''g++'' ?w))) = [?cmd]"
    by (simp only: c)
  then have mem: "?cmd \<in> set (commands_run (events_of ?w (snd (compile_project ?en ''g++'' ?w))))"
    by simp
  from t have ball: "\<forall>cmd \<in> set (commands_run (events_of ?w (snd (compile_project ?en ''g++'' ?w)))).
         hd cmd = ''g++''
         \<and> input_files (tl cmd) = [''main.cpp'']
         \<and> filter (prefix ''-I'') (tl cmd) = [''-I.'']
         \<and> (\<forall>t \<in> set (tl cmd). \<not> sublist ''User.h'' t \<and> \<not> sublist ''RideManager.h'' t)"
    by blast
  from bspec[OF ball mem] have b: "input_files (tl ?cmd) = [''main.cpp'']"
    "filter (prefix ''-I'') (tl ?cmd) = [''-I.'']"
    "\<forall>t \<in> set (tl ?cmd). \<not> sublist ''User.h'' t \<and> \<not> sublist ''RideManager.h'' t"
    by blast+
  from b(3) have d: "\<not> sublist ''User.h'' ''main.cpp''" "\<not> sublist ''RideManager.h'' ''main.cpp''"
    by simp_all
  from b(1,2) have e: "input_files [''-std=c++17'', ''-Wall'', ''-Wextra'', ''-O2'', ''-I.'', ''main.cpp'', ''-o'',
         ''rideeasy.exe'', ''-static-libgcc'', ''-static-libstdc++''] = [''main.cpp'']"
    "filter (prefix ''-I'') [''-std=c++17'', ''-Wall'', ''-Wextra'', ''-O2'', ''-I.'', ''main.cpp'',
         ''-o'', ''rideeasy.exe'', ''-static-libgcc'', ''-static-libstdc++''] = [''-I.'']"
    by (simp_all only: list.sel)
  from a e d show ?thesis by blast
qed








end
